theory Spec2Isabelle
  imports Main "HOL-Library.Word" "HOL-Library.Multiset" "HOL-Library.Sublist"
begin

unbundle bit_operations_syntax

section \<open>Values shared by the build engine\<close>

text \<open>
  A \<open>Buffer\<close> is a sequence of bytes. A \<open>jsval\<close> is a dynamically typed value of the
  kind the per-file property overrides can hold: \<open>setProperty(this, key, value)\<close>
  stores whatever it is given, so a flag can end up holding a string.
\<close>

type_synonym Buffer = "8 word list"

datatype jsval = JUndefined | JBool bool | JStr string

fun truthy :: "jsval \<Rightarrow> bool" where
  "truthy JUndefined = False"
| "truthy (JBool b) = b"
| "truthy (JStr s) = (s \<noteq> [])"

record ErrnoException =
  err_message :: string
  err_code :: "string option"
  err_errno :: "string option"

text \<open>
  A source-map object: \<open>version\<close>, \<open>sources\<close> and \<open>mappings\<close> are required,
  the other fields optional. An element of \<open>sourcesContent\<close> is \<open>None\<close> where the
  array has no entry for a source.
\<close>

record SourceMapObject =
  sm_version :: nat
  sm_sources :: "string list"
  sm_mappings :: string
  sm_file :: "string option"
  sm_sourceRoot :: "string option"
  sm_sourcesContent :: "string option list option"
  sm_names :: "string list option"

text \<open>
  \<open>SourceMapData\<close> is a raw object, its JSON text, or a builder; the builder is kept
  as the object it was built from.
\<close>

datatype SourceMapData =
  RawSourceMap SourceMapObject
| JsonSourceMap string
| BuilderSourceMap SourceMapObject

section \<open>The file object (lib/builder/file.ts)\<close>

text \<open>
  The four private content slots are \<open>priv_srcBuffer\<close>, \<open>priv_srcContent\<close>,
  \<open>priv_destBuffer\<close> and \<open>priv_destContent\<close> (\<open>_srcBuffer\<close> ... in the source);
  \<open>None\<close> is \<open>undefined\<close>. \<open>own\<close> holds the own properties installed by
  \<open>setProperty\<close>, keyed by property name; they shadow the accessors of the class.
\<close>

record File =
  srcPath :: string
  path :: string
  priv_srcBuffer :: "Buffer option"
  priv_srcContent :: "string option"
  priv_destBuffer :: "Buffer option"
  priv_destContent :: "string option"
  indexes :: "nat list option"
  own :: "string \<Rightarrow> jsval option"
  sourceMapData :: "SourceMapData option"
  errorCount :: "nat option"
  warningCount :: "nat option"

text \<open>The working modes are bit flags: \<open>build = 0\<close>, \<open>preview = 1 << 0\<close>,
  \<open>clean = 1 << 1\<close>, \<open>watch = 1 << 2\<close>.\<close>

definition WorkingMode_build :: nat where "WorkingMode_build = 0"
definition WorkingMode_preview :: nat where "WorkingMode_preview = push_bit 0 1"
definition WorkingMode_clean :: nat where "WorkingMode_clean = push_bit 1 1"
definition WorkingMode_watch :: nat where "WorkingMode_watch = push_bit 2 1"

datatype LogLevel = LogLevel_log | LogLevel_info | LogLevel_warning | LogLevel_error | LogLevel_fatal

text \<open>
  A log entry after the constructor of the base class \<open>LogEntry\<close> has run on the
  data it was given (the base class is in lib/builder/logging.ts).
\<close>

record LogEntry =
  le_message :: string
  le_plugin :: "string option"
  le_error :: "ErrnoException option"
  le_path :: "string option"
  le_content :: "string option"
  le_sourceMap :: "bool option"
  le_sourceMapData :: "SourceMapData option"
  le_startLine :: "nat option"
  le_startColumn :: "nat option"
  le_endLine :: "nat option"
  le_endColumn :: "nat option"

text \<open>What \<open>file.log\<close> is given: a message, an error, or an object with the fields of an entry.\<close>

datatype LogData = LogString string | LogError ErrnoException | LogObject LogEntry

record SourceLocation =
  sourcePath :: string
  sourceContent :: "string option"
  line :: nat
  column :: nat

text \<open>
  The module-level variables exported by file.ts: the working mode, the defaults
  the accessors fall back to, and the hooks (\<open>None\<close> is \<open>null\<close>).
\<close>

record Globals =
  workingMode :: nat
  encoding :: string
  overwrite :: bool
  sourceMap :: bool
  sourceMapPath :: "(File \<Rightarrow> string) option"
  sourceMapUrl :: "(File \<Rightarrow> string) option"
  sourceMapSource :: "(string \<Rightarrow> File \<Rightarrow> string) option"
  sourceMapSourceContent :: "(string \<Rightarrow> File \<Rightarrow> string) option"
  sourceMapInline :: bool
  sourceMapEmit :: bool
  sourceMapRoot :: string
  sourceMapIncludeSourcesContent :: bool
  sourceMapIncludeFile :: bool
  sourceMapIncludeNames :: bool
  onValidateSourceMap :: "(SourceMapObject \<Rightarrow> File \<Rightarrow> string option) option"
  fileCount :: nat
  onValidateFile :: "(string \<Rightarrow> File \<Rightarrow> bool) option"
  onSaveFile :: "(string \<Rightarrow> File \<Rightarrow> unit) option"
  onDeleteFile :: "(File \<Rightarrow> unit) option"
  onLogFile :: "(LogEntry \<Rightarrow> LogLevel \<Rightarrow> File \<Rightarrow> jsval) option"

text \<open>
  The functions file.ts imports from lib/utility (path, url, encode, fsSync,
  sourceMap) and from logging.ts are parameters of the model. \<open>readFileSync\<close> returns
  the bytes (\<open>Inr\<close>) or throws (\<open>Inl\<close>).
\<close>

record Utility =
  resolvePath :: "jsval list \<Rightarrow> string"
  pathEquals :: "string \<Rightarrow> string \<Rightarrow> bool"
  relativeUrl :: "jsval \<Rightarrow> string \<Rightarrow> string"
  getDisplayName :: "string \<Rightarrow> string"
  stringToBuffer :: "string \<Rightarrow> jsval \<Rightarrow> Buffer"
  bufferToString :: "Buffer \<Rightarrow> jsval \<Rightarrow> string"
  base64Uri :: "string \<Rightarrow> string \<Rightarrow> string"
  readFileSync :: "string \<Rightarrow> ErrnoException + Buffer"
  existsFileSync :: "string \<Rightarrow> bool"
  toSourceMapObject :: "SourceMapData \<Rightarrow> SourceMapObject"
  toSourceMapBuilder :: "SourceMapData \<Rightarrow> SourceMapData"
  getSource :: "SourceMapData \<Rightarrow> nat \<Rightarrow> nat \<Rightarrow> SourceLocation"
  emitSourceMapUrl :: "string \<Rightarrow> jsval \<Rightarrow> bool \<Rightarrow> string"
  JSON_stringify :: "SourceMapObject option \<Rightarrow> string"
  new_LogEntry :: "LogData \<Rightarrow> LogEntry"

subsection \<open>Per-file overrides\<close>

text \<open>
  Modelled from the spec: \<open>setProperty\<close> of lib/utility/object.ts, which is not among
  the sources. The spec describes the pattern (a getter falls back to a global until
  a setter installs an own value) and test/utility/objectTest.ts shows it: after
  \<open>setProperty(this, "prop", v)\<close> reading \<open>prop\<close> gives \<open>v\<close>.
\<close>

definition setProperty :: "File \<Rightarrow> string \<Rightarrow> jsval \<Rightarrow> File" where
  "setProperty f key v = f\<lparr>own := (own f)(key := Some v)\<rparr>"

text \<open>Reading a property: the own value when one was installed, else the accessor.\<close>

definition read_property :: "File \<Rightarrow> string \<Rightarrow> jsval \<Rightarrow> jsval" where
  "read_property f key getter = (case own f key of Some v \<Rightarrow> v | None \<Rightarrow> getter)"

definition get_encoding :: "Globals \<Rightarrow> File \<Rightarrow> jsval" where
  "get_encoding g f = read_property f ''encoding'' (JStr (encoding g))"

definition set_encoding :: "jsval \<Rightarrow> File \<Rightarrow> File" where
  "set_encoding v f = setProperty f ''encoding'' v"

definition get_sourceMap :: "Globals \<Rightarrow> File \<Rightarrow> jsval" where
  "get_sourceMap g f = read_property f ''sourceMap'' (JBool (sourceMap g))"

definition set_sourceMap :: "jsval \<Rightarrow> File \<Rightarrow> File" where
  "set_sourceMap v f = setProperty f ''sourceMap'' v"

definition get_sourceMapPath :: "Globals \<Rightarrow> File \<Rightarrow> jsval" where
  "get_sourceMapPath g f = read_property f ''sourceMapPath''
     (case sourceMapPath g of Some cb \<Rightarrow> JStr (cb f) | None \<Rightarrow> JUndefined)"

definition set_sourceMapPath :: "jsval \<Rightarrow> File \<Rightarrow> File" where
  "set_sourceMapPath v f = setProperty f ''sourceMapPath'' v"

definition get_sourceMapEmit :: "Globals \<Rightarrow> File \<Rightarrow> jsval" where
  "get_sourceMapEmit g f = read_property f ''sourceMapEmit'' (JBool (sourceMapEmit g))"

definition set_sourceMapEmit :: "jsval \<Rightarrow> File \<Rightarrow> File" where
  "set_sourceMapEmit v f = setProperty f ''sourceMapEmit'' v"

definition get_sourceMapInline :: "Globals \<Rightarrow> File \<Rightarrow> jsval" where
  "get_sourceMapInline g f = read_property f ''sourceMapInline'' (JBool (sourceMapInline g))"

definition set_sourceMapInline :: "jsval \<Rightarrow> File \<Rightarrow> File" where
  "set_sourceMapInline v f = setProperty f ''sourceMapInline'' v"

definition get_sourceMapUrl :: "Globals \<Rightarrow> File \<Rightarrow> jsval" where
  "get_sourceMapUrl g f = read_property f ''sourceMapUrl''
     (case sourceMapUrl g of Some cb \<Rightarrow> JStr (cb f) | None \<Rightarrow> JUndefined)"

text \<open>The setter of \<open>sourceMapUrl\<close> passes the key \<open>"sourceMapInline"\<close> (file.ts:382).\<close>

definition set_sourceMapUrl :: "jsval \<Rightarrow> File \<Rightarrow> File" where
  "set_sourceMapUrl v f = setProperty f ''sourceMapInline'' v"

definition get_sourceMapIncludeFile :: "Globals \<Rightarrow> File \<Rightarrow> jsval" where
  "get_sourceMapIncludeFile g f =
     read_property f ''sourceMapIncludeFile'' (JBool (sourceMapIncludeFile g))"

definition set_sourceMapIncludeFile :: "jsval \<Rightarrow> File \<Rightarrow> File" where
  "set_sourceMapIncludeFile v f = setProperty f ''sourceMapIncludeFile'' v"

definition get_sourceMapRoot :: "Globals \<Rightarrow> File \<Rightarrow> jsval" where
  "get_sourceMapRoot g f = read_property f ''sourceMapRoot'' (JStr (sourceMapRoot g))"

definition set_sourceMapRoot :: "jsval \<Rightarrow> File \<Rightarrow> File" where
  "set_sourceMapRoot v f = setProperty f ''sourceMapRoot'' v"

definition get_sourceMapIncludeSourcesContent :: "Globals \<Rightarrow> File \<Rightarrow> jsval" where
  "get_sourceMapIncludeSourcesContent g f =
     read_property f ''sourceMapIncludeSourcesContent'' (JBool (sourceMapIncludeSourcesContent g))"

definition set_sourceMapIncludeSourcesContent :: "jsval \<Rightarrow> File \<Rightarrow> File" where
  "set_sourceMapIncludeSourcesContent v f = setProperty f ''sourceMapIncludeSourcesContent'' v"

definition get_sourceMapIncludeNames :: "Globals \<Rightarrow> File \<Rightarrow> jsval" where
  "get_sourceMapIncludeNames g f =
     read_property f ''sourceMapIncludeNames'' (JBool (sourceMapIncludeNames g))"

definition set_sourceMapIncludeNames :: "jsval \<Rightarrow> File \<Rightarrow> File" where
  "set_sourceMapIncludeNames v f = setProperty f ''sourceMapIncludeNames'' v"

definition get_overwrite :: "Globals \<Rightarrow> File \<Rightarrow> jsval" where
  "get_overwrite g f = read_property f ''overwrite'' (JBool (overwrite g))"

definition set_overwrite :: "jsval \<Rightarrow> File \<Rightarrow> File" where
  "set_overwrite v f = setProperty f ''overwrite'' v"

subsection \<open>Content\<close>

definition clean_mode :: "Globals \<Rightarrow> bool" where
  "clean_mode g = (workingMode g AND WorkingMode_clean \<noteq> 0)"

definition preview_mode :: "Globals \<Rightarrow> bool" where
  "preview_mode g = (workingMode g AND WorkingMode_preview \<noteq> 0)"

definition generated :: "File \<Rightarrow> bool" where
  "generated f = (srcPath f = [])"

definition exists :: "Utility \<Rightarrow> File \<Rightarrow> bool" where
  "exists u f = existsFileSync u (srcPath f)"

text \<open>
  Every getter returns its value and the file as the getter leaves it: the getters
  cache what they compute in the slots. A getter that has to read the source file
  throws what \<open>readFileSync\<close> throws (\<open>Inl\<close>) and then leaves the file as it was. The
  \<open>beginAsync\<close>/\<open>endAsync\<close> bracket around a synchronous read is not recorded.
\<close>

definition srcBuffer :: "Utility \<Rightarrow> Globals \<Rightarrow> File \<Rightarrow> (ErrnoException + Buffer) \<times> File" where
  "srcBuffer u g f =
     (case priv_srcBuffer f of
        Some b \<Rightarrow> (Inr b, f)
      | None \<Rightarrow>
          (case priv_srcContent f of
             None \<Rightarrow>
               (if srcPath f \<noteq> [] \<and> \<not> clean_mode g
                then (case readFileSync u (srcPath f) of
                        Inl e \<Rightarrow> (Inl e, f)
                      | Inr b \<Rightarrow> (Inr b, f\<lparr>priv_srcBuffer := Some b\<rparr>))
                else (Inr [], f\<lparr>priv_srcBuffer := Some []\<rparr>))
           | Some c \<Rightarrow>
               (Inr (stringToBuffer u c (get_encoding g f)),
                f\<lparr>priv_srcBuffer := Some (stringToBuffer u c (get_encoding g f))\<rparr>)))"

definition srcContent :: "Utility \<Rightarrow> Globals \<Rightarrow> File \<Rightarrow> (ErrnoException + string) \<times> File" where
  "srcContent u g f =
     (case priv_srcContent f of
        Some c \<Rightarrow> (Inr c, f)
      | None \<Rightarrow>
          (case priv_srcBuffer f of
             None \<Rightarrow>
               (if srcPath f \<noteq> [] \<and> \<not> clean_mode g
                then (case readFileSync u (srcPath f) of
                        Inl e \<Rightarrow> (Inl e, f)
                      | Inr b \<Rightarrow>
                          (Inr (bufferToString u b (get_encoding g f)),
                           f\<lparr>priv_srcContent := Some (bufferToString u b (get_encoding g f))\<rparr>))
                else (Inr [], f\<lparr>priv_srcContent := Some []\<rparr>))
           | Some b \<Rightarrow>
               (Inr (bufferToString u b (get_encoding g f)),
                f\<lparr>priv_srcContent := Some (bufferToString u b (get_encoding g f))\<rparr>)))"

definition buffer :: "Utility \<Rightarrow> Globals \<Rightarrow> File \<Rightarrow> (ErrnoException + Buffer) \<times> File" where
  "buffer u g f =
     (case priv_destBuffer f of
        Some b \<Rightarrow> (Inr b, f)
      | None \<Rightarrow>
          (case priv_destContent f of
             Some c \<Rightarrow>
               (Inr (stringToBuffer u c (get_encoding g f)),
                f\<lparr>priv_destBuffer := Some (stringToBuffer u c (get_encoding g f))\<rparr>)
           | None \<Rightarrow> srcBuffer u g f))"

definition setModified :: "File \<Rightarrow> File" where
  "setModified f = f\<lparr>indexes := None\<rparr>"

definition set_buffer :: "Buffer \<Rightarrow> File \<Rightarrow> File" where
  "set_buffer v f = setModified (f\<lparr>priv_destBuffer := Some v, priv_destContent := None\<rparr>)"

definition content :: "Utility \<Rightarrow> Globals \<Rightarrow> File \<Rightarrow> (ErrnoException + string) \<times> File" where
  "content u g f =
     (case priv_destContent f of
        Some c \<Rightarrow> (Inr c, f)
      | None \<Rightarrow>
          (case priv_destBuffer f of
             Some b \<Rightarrow>
               (Inr (bufferToString u b (get_encoding g f)),
                f\<lparr>priv_destContent := Some (bufferToString u b (get_encoding g f))\<rparr>)
           | None \<Rightarrow> srcContent u g f))"

definition set_content :: "string \<Rightarrow> File \<Rightarrow> File" where
  "set_content v f = setModified (f\<lparr>priv_destContent := Some v, priv_destBuffer := None\<rparr>)"

text \<open>\<open>data\<close> is text (\<open>Inl\<close>) or bytes (\<open>Inr\<close>), when the getter returns.\<close>

definition data :: "Utility \<Rightarrow> Globals \<Rightarrow> File \<Rightarrow> (ErrnoException + (string + Buffer)) \<times> File" where
  "data u g f =
     (case priv_destContent f of
        Some c \<Rightarrow> (Inr (Inl c), f)
      | None \<Rightarrow>
          (case fst (buffer u g f) of
             Inl e \<Rightarrow> (Inl e, snd (buffer u g f))
           | Inr b \<Rightarrow> (Inr (Inr b), snd (buffer u g f))))"

definition set_data :: "string + Buffer \<Rightarrow> File \<Rightarrow> File" where
  "set_data v f = (case v of Inl s \<Rightarrow> set_content s f | Inr b \<Rightarrow> set_buffer b f)"

definition modified :: "File \<Rightarrow> bool" where
  "modified f = (priv_destContent f \<noteq> None \<or> priv_destBuffer f \<noteq> None)"

text \<open>
  The property of the dest slots the specification asks for: when the file is
  modified, exactly one of \<open>_destBuffer\<close> and \<open>_destContent\<close> is populated.
\<close>

definition dest_xor :: "File \<Rightarrow> bool" where
  "dest_xor f = (if modified f then (priv_destBuffer f = None) \<noteq> (priv_destContent f = None) else True)"

subsection \<open>Construction and cloning\<close>

definition blank_File :: File where
  "blank_File = \<lparr>srcPath = [], path = [], priv_srcBuffer = None, priv_srcContent = None,
     priv_destBuffer = None, priv_destContent = None, indexes = None, own = (\<lambda>_. None),
     sourceMapData = None, errorCount = None, warningCount = None\<rparr>"

text \<open>\<open>new File(srcPath?, path?, data?)\<close>; an absent argument is \<open>None\<close>.\<close>

definition new_File :: "Utility \<Rightarrow> string option \<Rightarrow> string option \<Rightarrow> (string + Buffer) option \<Rightarrow> File" where
  "new_File u sp p d =
     (let src = resolvePath u [case sp of Some s \<Rightarrow> JStr s | None \<Rightarrow> JUndefined];
          f = blank_File\<lparr>srcPath := src,
                path := (case p of Some q \<Rightarrow> (if q \<noteq> [] then q else src) | None \<Rightarrow> src)\<rparr>
      in case d of Some v \<Rightarrow> set_data v f | None \<Rightarrow> f)"

text \<open>
  \<open>clone\<close> reads \<open>this.data\<close>: it returns the copy, or throws what the read throws, and
  the file as the read leaves it.
\<close>

definition clone :: "Utility \<Rightarrow> Globals \<Rightarrow> File \<Rightarrow> (ErrnoException + File) \<times> File" where
  "clone u g f =
     (case fst (data u g f) of
        Inl e \<Rightarrow> (Inl e, snd (data u g f))
      | Inr v \<Rightarrow> (Inr (new_File u (Some (srcPath f)) (Some (path f)) (Some v)), snd (data u g f)))"

subsection \<open>Diagnostics\<close>

text \<open>
  What a method does to the outside is a list of effects, in the order the calls are
  made. \<open>Callback e\<close> is the invocation of the caller's callback (when one was given)
  with error \<open>e\<close>; \<open>None\<close> is \<open>null\<close>. \<open>ReadFile p\<close> is the start of the
  asynchronous \<open>readFile(p, ...)\<close>. \<open>Throw e\<close> is the method (or the callback it runs
  in) ending by throwing \<open>e\<close>: nothing follows it.
\<close>

datatype effect =
  Log LogEntry LogLevel
| BeginAsync string
| EndAsync
| ReadFile string
| OnSaveFile string
| Callback "ErrnoException option"
| Throw ErrnoException

fun thrown :: "effect list \<Rightarrow> ErrnoException option" where
  "thrown [] = None"
| "thrown (Throw e # es) = Some e"
| "thrown (_ # es) = thrown es"

text \<open>The statements after a call run only when the call returns.\<close>

definition followed_by :: "effect list \<Rightarrow> effect list \<Rightarrow> effect list" where
  "followed_by xs ys = (if thrown xs = None then xs @ ys else xs)"

definition sm_truthy :: "SourceMapData option \<Rightarrow> bool" where
  "sm_truthy d = (case d of None \<Rightarrow> False | Some (JsonSourceMap s) \<Rightarrow> s \<noteq> [] | Some _ \<Rightarrow> True)"

text \<open>
  The part of the constructor of \<open>FileLogEntry\<close> that maps the location through the
  source map (file.ts:1045-1064).
\<close>

definition FileLogEntry_mapped :: "Utility \<Rightarrow> LogEntry \<Rightarrow> LogEntry" where
  "FileLogEntry_mapped u e3 =
     (if le_sourceMap e3 \<noteq> Some False \<and> le_startLine e3 \<noteq> None \<and> sm_truthy (le_sourceMapData e3)
      then
        (let builder = toSourceMapBuilder u (the (le_sourceMapData e3));
             startSource = getSource u builder (the (le_startLine e3))
                             (case le_startColumn e3 of Some c \<Rightarrow> c | None \<Rightarrow> 0);
             a = e3\<lparr>le_sourceMap := Some False, le_sourceMapData := Some builder\<rparr>;
             b = (if \<not> pathEquals u (the (le_path a)) (sourcePath startSource)
                  then a\<lparr>le_path := Some (sourcePath startSource),
                         le_content := sourceContent startSource\<rparr>
                  else a);
             c = b\<lparr>le_startLine := Some (line startSource),
                    le_startColumn := Some (column startSource)\<rparr>
         in case le_endLine c of
              None \<Rightarrow> c
            | Some el \<Rightarrow>
                (let endSource = getSource u builder el
                                   (case le_endColumn c of Some k \<Rightarrow> k | None \<Rightarrow> 0)
                 in if pathEquals u (the (le_path c)) (sourcePath endSource)
                    then c\<lparr>le_endLine := Some (line endSource),
                           le_endColumn := Some (column endSource)\<rparr>
                    else c\<lparr>le_endLine := None, le_endColumn := None\<rparr>))
      else e3)"

text \<open>
  The constructor of \<open>FileLogEntry\<close>, from the entry the base constructor built.
  When the entry has no content it reads \<open>file.content\<close>, and at the end, when it
  still has none but has a path and a start line, the \<open>srcContent\<close> of a new file at
  that path. Either read can throw, and then so does the constructor. It returns
  the file as the read of \<open>file.content\<close> leaves it.
\<close>

definition new_FileLogEntry ::
  "Utility \<Rightarrow> Globals \<Rightarrow> File \<Rightarrow> LogData \<Rightarrow> (ErrnoException + LogEntry) \<times> File" where
  "new_FileLogEntry u g f d =
     (let e0 = new_LogEntry u d;
          e1 = (if le_path e0 = None then e0\<lparr>le_path := Some (path f)\<rparr> else e0)
      in if le_content e1 = None \<and> isl (fst (content u g f))
         then (Inl (projl (fst (content u g f))), snd (content u g f))
         else
           (let f1 = (if le_content e1 = None then snd (content u g f) else f);
                e2 = (if le_content e1 = None
                      then e1\<lparr>le_content := Some (projr (fst (content u g f)))\<rparr> else e1);
                e3 = (if le_sourceMapData e2 = None then e2\<lparr>le_sourceMapData := sourceMapData f1\<rparr>
                      else e2);
                e4 = FileLogEntry_mapped u e3
            in if le_content e4 = None \<and> le_path e4 \<noteq> None \<and> le_startLine e4 \<noteq> None
               then (case fst (srcContent u g (new_File u (le_path e4) None None)) of
                       Inl x \<Rightarrow> (Inl x, f1)
                     | Inr c \<Rightarrow> (Inr (e4\<lparr>le_content := Some c\<rparr>), f1))
               else (Inr e4, f1)))"

definition count_up :: "nat option \<Rightarrow> nat option" where
  "count_up c = (case c of None \<Rightarrow> Some 1 | Some n \<Rightarrow> Some (n + 1))"

definition log :: "Utility \<Rightarrow> Globals \<Rightarrow> LogData \<Rightarrow> LogLevel \<Rightarrow> File \<Rightarrow> File \<times> effect list" where
  "log u g d level f =
     (let f1 = snd (new_FileLogEntry u g f d)
      in case fst (new_FileLogEntry u g f d) of
           Inl x \<Rightarrow> (f1, [Throw x])
         | Inr e \<Rightarrow>
             (if (case onLogFile g of Some h \<Rightarrow> h e level f1 = JBool False | None \<Rightarrow> False)
              then (f1, [])
              else ((case level of
                       LogLevel_error \<Rightarrow> f1\<lparr>errorCount := count_up (errorCount f1)\<rparr>
                     | LogLevel_fatal \<Rightarrow> f1\<lparr>errorCount := count_up (errorCount f1)\<rparr>
                     | LogLevel_warning \<Rightarrow> f1\<lparr>warningCount := count_up (warningCount f1)\<rparr>
                     | _ \<Rightarrow> f1),
                    [Log e level])))"

definition error :: "Utility \<Rightarrow> Globals \<Rightarrow> LogData \<Rightarrow> File \<Rightarrow> File \<times> effect list" where
  "error u g d f = log u g d LogLevel_error f"

definition warning :: "Utility \<Rightarrow> Globals \<Rightarrow> LogData \<Rightarrow> File \<Rightarrow> File \<times> effect list" where
  "warning u g d f = log u g d LogLevel_warning f"

subsection \<open>Load\<close>

text \<open>
  \<open>load\<close> either calls back at once or starts \<open>readFile\<close>; \<open>load_readFile\<close> is the
  callback \<open>load\<close> hands to \<open>readFile\<close>, run when the read completes with an error
  (\<open>Inl\<close>) or with the bytes (\<open>Inr\<close>). When \<open>this.error\<close> throws, \<open>endAsync\<close> and the
  caller's callback are not reached.
\<close>

definition load :: "Utility \<Rightarrow> Globals \<Rightarrow> File \<Rightarrow> File \<times> effect list" where
  "load u g f =
     (if srcPath f = [] \<or> priv_destContent f \<noteq> None \<or> priv_destBuffer f \<noteq> None
         \<or> priv_srcBuffer f \<noteq> None \<or> priv_srcContent f \<noteq> None \<or> clean_mode g
      then (f, [Callback None])
      else (f, [BeginAsync ''Read: {file}'', ReadFile (srcPath f)]))"

definition load_readFile :: "Utility \<Rightarrow> Globals \<Rightarrow> ErrnoException + Buffer \<Rightarrow> File \<Rightarrow> File \<times> effect list" where
  "load_readFile u g r f =
     (case r of
        Inl e \<Rightarrow> (fst (error u g (LogError e) f),
                  followed_by (snd (error u g (LogError e) f)) [EndAsync, Callback (Some e)])
      | Inr d \<Rightarrow> (f\<lparr>priv_srcBuffer := Some d\<rparr>, [EndAsync, Callback None]))"

subsection \<open>Save\<close>

text \<open>\<open>/\.js$/i.test(path)\<close>: the path ends in \<open>.js\<close>, in either case.\<close>

definition js_suffix :: "string \<Rightarrow> bool" where
  "js_suffix p =
     (case rev p of
        c3 # c2 # c1 # _ \<Rightarrow>
          c1 = CHR ''.'' \<and> (c2 = CHR ''j'' \<or> c2 = CHR ''J'') \<and> (c3 = CHR ''s'' \<or> c3 = CHR ''S'')
      | _ \<Rightarrow> False)"

definition sourceMapObject :: "Utility \<Rightarrow> File \<Rightarrow> SourceMapObject option \<times> File" where
  "sourceMapObject u f =
     (if \<not> sm_truthy (sourceMapData f) then (None, f)
      else (Some (toSourceMapObject u (the (sourceMapData f))),
            f\<lparr>sourceMapData := Some (RawSourceMap (toSourceMapObject u (the (sourceMapData f))))\<rparr>))"

definition sourceMapString :: "Utility \<Rightarrow> File \<Rightarrow> string \<times> File" where
  "sourceMapString u f = (JSON_stringify u (fst (sourceMapObject u f)), snd (sourceMapObject u f))"

text \<open>The locals \<open>sourceMapEmit\<close>, \<open>modified\<close> and \<open>sourceMapPath\<close> of \<open>save\<close>.\<close>

definition save_sourceMapEmit :: "Globals \<Rightarrow> File \<Rightarrow> bool" where
  "save_sourceMapEmit g f = (sm_truthy (sourceMapData f) \<and> truthy (get_sourceMapEmit g f))"

definition save_modified :: "Globals \<Rightarrow> File \<Rightarrow> bool" where
  "save_modified g f = (modified f \<or> save_sourceMapEmit g f)"

definition save_sourceMapPath :: "Globals \<Rightarrow> File \<Rightarrow> string \<Rightarrow> jsval" where
  "save_sourceMapPath g f savePath =
     (if \<not> sm_truthy (sourceMapData f) then JUndefined
      else if truthy (get_sourceMapInline g f) then JBool False
      else if truthy (get_sourceMapPath g f) then get_sourceMapPath g f
      else JStr (savePath @ ''.map''))"

definition EEXIST :: ErrnoException where
  "EEXIST = \<lparr>err_message = ''EEXIST, file already exists.'', err_code = Some ''EEXIST'',
     err_errno = Some ''17''\<rparr>"

definition blank_LogEntry :: LogEntry where
  "blank_LogEntry = \<lparr>le_message = [], le_plugin = None, le_error = None, le_path = None,
     le_content = None, le_sourceMap = None, le_sourceMapData = None, le_startLine = None,
     le_startColumn = None, le_endLine = None, le_endColumn = None\<rparr>"

text \<open>The object \<open>save\<close> passes to \<open>this.error\<close> when it refuses to overwrite the source.\<close>

definition overwrite_diagnostic :: LogData where
  "overwrite_diagnostic = LogObject (blank_LogEntry\<lparr>
     le_message := ''Cannot overwrite source file. Use '--overwrite' to force saving.'',
     le_error := Some EEXIST\<rparr>)"

text \<open>
  The closure \<open>done\<close> of \<open>save\<close>, on the file, the globals (it counts the file) and the
  number of operations still pending. When \<open>this.error\<close> throws, the count is not
  decremented and nothing follows.
\<close>

definition save_done ::
  "Utility \<Rightarrow> string \<Rightarrow> ErrnoException option \<Rightarrow> File \<times> Globals \<times> int \<Rightarrow> (File \<times> Globals \<times> int) \<times> effect list" where
  "save_done u savePath err st =
     (case st of (f, g, pending) \<Rightarrow>
       (case err of
          Some e \<Rightarrow>
            (if thrown (snd (error u g (LogError e) f)) \<noteq> None
             then ((fst (error u g (LogError e) f), g, pending), snd (error u g (LogError e) f))
             else if pending - 1 > 0
             then ((fst (error u g (LogError e) f), g, pending - 1), snd (error u g (LogError e) f))
             else ((fst (error u g (LogError e) f), g, pending - 1),
                   snd (error u g (LogError e) f) @ [EndAsync, Callback err]))
        | None \<Rightarrow>
            (if pending - 1 > 0 then ((f, g, pending - 1), [])
             else ((f, g\<lparr>fileCount := fileCount g + 1\<rparr>, pending - 1),
                   (if onSaveFile g \<noteq> None then [OnSaveFile savePath] else [])
                   @ [EndAsync, Callback err]))))"

text \<open>
  The emitted source map (file.ts:595-638). \<open>finalSourceMap.sources\<close> is the array
  \<open>sourceMapObject.sources\<close> itself, so the loop over \<open>sourcesContent\<close> reads the sources
  as the loop before it rewrote them. The result is the serialized map, or what a
  read of a source threw, and the file as the reads of \<open>srcContent\<close> leave it. The
  object \<open>toSourceMapObject\<close> returns is taken to be a fresh one, and a \<open>sourceRoot\<close> is
  recorded when it is a non-empty string.
\<close>

definition final_sources :: "Utility \<Rightarrow> Globals \<Rightarrow> File \<Rightarrow> jsval \<Rightarrow> SourceMapObject \<Rightarrow> string list" where
  "final_sources u g f smPath smo =
     (let sourceRoot = (if truthy (get_sourceMapRoot g f) then get_sourceMapRoot g f
                        else (case sm_sourceRoot smo of Some r \<Rightarrow> JStr r | None \<Rightarrow> JUndefined))
      in map (\<lambda>s. case sourceMapSource g of
                     Some cb \<Rightarrow> cb s f
                   | None \<Rightarrow> relativeUrl u (if truthy sourceRoot then sourceRoot else smPath) s)
             (sm_sources smo))"

definition cons_content ::
  "string option \<Rightarrow> (ErrnoException + string option list) \<times> File
     \<Rightarrow> (ErrnoException + string option list) \<times> File" where
  "cons_content x r = (case fst r of Inl e \<Rightarrow> (Inl e, snd r) | Inr xs \<Rightarrow> (Inr (x # xs), snd r))"

fun final_sourcesContent ::
  "Utility \<Rightarrow> Globals \<Rightarrow> SourceMapObject \<Rightarrow> string list \<Rightarrow> nat \<Rightarrow> File
     \<Rightarrow> (ErrnoException + string option list) \<times> File" where
  "final_sourcesContent u g smo [] i f = (Inr [], f)"
| "final_sourcesContent u g smo (s # ss) i f =
     (case sourceMapSourceContent g of
        Some cb \<Rightarrow> cons_content (Some (cb s f)) (final_sourcesContent u g smo ss (i + 1) f)
      | None \<Rightarrow>
          (case sm_sourcesContent smo of
             Some cs \<Rightarrow>
               cons_content (if i < length cs then cs ! i else None)
                 (final_sourcesContent u g smo ss (i + 1) f)
           | None \<Rightarrow>
               (if s = srcPath f
                then (case fst (srcContent u g f) of
                        Inl e \<Rightarrow> (Inl e, snd (srcContent u g f))
                      | Inr c \<Rightarrow>
                          cons_content (Some c)
                            (final_sourcesContent u g smo ss (i + 1) (snd (srcContent u g f))))
                else (case readFileSync u s of
                        Inl e \<Rightarrow> (Inl e, f)
                      | Inr b \<Rightarrow>
                          cons_content (Some (bufferToString u b (JStr (encoding g))))
                            (final_sourcesContent u g smo ss (i + 1) f)))))"

definition finalSourceMap ::
  "Utility \<Rightarrow> Globals \<Rightarrow> File \<Rightarrow> string \<Rightarrow> (ErrnoException + SourceMapObject) \<times> File" where
  "finalSourceMap u g f savePath =
     (let smo = toSourceMapObject u (the (sourceMapData f));
          smPath = save_sourceMapPath g f savePath;
          sourceRoot = (if truthy (get_sourceMapRoot g f) then get_sourceMapRoot g f
                        else (case sm_sourceRoot smo of Some r \<Rightarrow> JStr r | None \<Rightarrow> JUndefined));
          srcs = final_sources u g f smPath smo;
          sc = (if truthy (get_sourceMapIncludeSourcesContent g f)
                then final_sourcesContent u g smo srcs 0 f
                else (Inr [], f))
      in case fst sc of
           Inl e \<Rightarrow> (Inl e, snd sc)
         | Inr cs \<Rightarrow>
            (Inr \<lparr>sm_version = (if sm_version smo \<noteq> 0 then sm_version smo else 3),
                 sm_sources = srcs,
                 sm_mappings = sm_mappings smo,
                 sm_file = (if truthy (get_sourceMapIncludeFile g f)
                            then Some (relativeUrl u smPath
                                         (case sm_file smo of
                                            Some x \<Rightarrow> (if x \<noteq> [] then x else savePath)
                                          | None \<Rightarrow> savePath))
                            else None),
                 sm_sourceRoot = (case sourceRoot of JStr r \<Rightarrow> (if r \<noteq> [] then Some r else None)
                                  | _ \<Rightarrow> None),
                 sm_sourcesContent = (if truthy (get_sourceMapIncludeSourcesContent g f)
                                      then Some cs else None),
                 sm_names = (if truthy (get_sourceMapIncludeNames g f)
                             then (case sm_names smo of
                                     Some ns \<Rightarrow> (if ns \<noteq> [] then Some ns else None)
                                   | None \<Rightarrow> None)
                             else None)\<rparr>,
             snd sc))"

definition finalSourceMapString ::
  "Utility \<Rightarrow> Globals \<Rightarrow> File \<Rightarrow> string \<Rightarrow> (ErrnoException + string) \<times> File" where
  "finalSourceMapString u g f savePath =
     (let f1 = snd (finalSourceMap u g f savePath)
      in case fst (finalSourceMap u g f savePath) of
           Inl e \<Rightarrow> (Inl e, f1)
         | Inr fsm \<Rightarrow>
             (Inr (case onValidateSourceMap g of
                     Some h \<Rightarrow>
                       (case h fsm f1 of
                          Some s \<Rightarrow> (if s \<noteq> [] then s else JSON_stringify u (Some fsm))
                        | None \<Rightarrow> JSON_stringify u (Some fsm))
                   | None \<Rightarrow> JSON_stringify u (Some fsm)),
              f1))"

text \<open>
  \<open>save\<close> up to its \<open>return this\<close>: the file, the globals and the number of
  operations left pending, with the effects in the order they are started. The
  callbacks of the operations it starts are \<open>save_deleted\<close> (after \<open>deleteFile\<close>) and
  \<open>save_written\<close> (after \<open>writeFile\<close> or \<open>copyFile\<close>); both end in \<open>save_done\<close>.
  The paths of the file-system effects are the values the source passes, which for
  the source map is whatever the \<open>sourceMapPath\<close> property holds.
\<close>

datatype fs_effect =
  FsWriteFile jsval Buffer
| FsCopyFile string string
| FsDeleteFile jsval
| FsDeleteParentDirIfEmpty jsval

datatype save_effect =
  Fs fs_effect
| Eff effect
| UpdatedCache string jsval

definition save_path :: "Utility \<Rightarrow> string option \<Rightarrow> File \<Rightarrow> string" where
  "save_path u dir f =
     resolvePath u [JStr (case dir of Some d \<Rightarrow> (if d \<noteq> [] then d else ''.'') | None \<Rightarrow> ''.''),
                    JStr (path f)]"

definition save_deleted ::
  "Utility \<Rightarrow> string \<Rightarrow> jsval \<Rightarrow> ErrnoException option \<Rightarrow> File \<times> Globals \<times> int
     \<Rightarrow> (File \<times> Globals \<times> int) \<times> save_effect list" where
  "save_deleted u savePath p err st =
     (case err of
        Some e \<Rightarrow> (fst (save_done u savePath err st), map Eff (snd (save_done u savePath err st)))
      | None \<Rightarrow> (st, [Fs (FsDeleteParentDirIfEmpty p)]))"

definition save_written ::
  "Utility \<Rightarrow> string \<Rightarrow> jsval \<Rightarrow> ErrnoException option \<Rightarrow> File \<times> Globals \<times> int
     \<Rightarrow> (File \<times> Globals \<times> int) \<times> save_effect list" where
  "save_written u savePath p err st =
     (case err of
        Some e \<Rightarrow> (fst (save_done u savePath err st), map Eff (snd (save_done u savePath err st)))
      | None \<Rightarrow> (fst (save_done u savePath None st),
                 UpdatedCache (srcPath (fst st)) p # map Eff (snd (save_done u savePath None st))))"

text \<open>The URL argument of \<open>emitSourceMapUrl\<close> at file.ts:656, and the file after computing it.\<close>

definition emitted_url :: "Utility \<Rightarrow> Globals \<Rightarrow> File \<Rightarrow> jsval \<times> File" where
  "emitted_url u g f =
     (if truthy (get_sourceMapInline g f)
      then (JStr (base64Uri u ''application/json'' (fst (sourceMapString u f))), snd (sourceMapString u f))
      else (get_sourceMapUrl g f, f))"

text \<open>
  The bytes \<open>save\<close> hands to \<open>writeFile\<close> for the content (file.ts:656), or what the read
  of \<open>this.content\<close> threw.
\<close>

definition written_content :: "Utility \<Rightarrow> Globals \<Rightarrow> File \<Rightarrow> (ErrnoException + Buffer) \<times> File" where
  "written_content u g f =
     (if save_sourceMapEmit g f
      then (case fst (content u g f) of
              Inl e \<Rightarrow> (Inl e, snd (content u g f))
            | Inr c \<Rightarrow>
                (let f2 = snd (content u g f);
                     url = fst (emitted_url u g f2);
                     f3 = snd (emitted_url u g f2)
                 in (Inr (stringToBuffer u (emitSourceMapUrl u c url (js_suffix (path f3)))
                            (get_encoding g f3)), f3)))
      else (case priv_destBuffer f of
              Some b \<Rightarrow> (Inr b, f)
            | None \<Rightarrow>
                (Inr (stringToBuffer u (case priv_destContent f of Some c \<Rightarrow> c | None \<Rightarrow> [])
                        (get_encoding g f)), f)))"

text \<open>
  The part of \<open>save\<close> that builds the file (file.ts:589-673). When building the source
  map or the content throws, \<open>save\<close> throws after \<open>beginAsync\<close>, having started nothing.
\<close>

definition save_build ::
  "Utility \<Rightarrow> Globals \<Rightarrow> string \<Rightarrow> File \<Rightarrow> (File \<times> Globals \<times> int) \<times> save_effect list" where
  "save_build u g savePath f =
     (let smPath = save_sourceMapPath g f savePath;
          isModified = save_modified g f;
          begin = Eff (BeginAsync (if isModified then ''Save: {file}'' else ''Copy: {file}''));
          m = (if sm_truthy (sourceMapData f) then finalSourceMapString u g f savePath else (Inr [], f));
          f1 = snd m
      in case fst m of
           Inl e \<Rightarrow> ((f1, g, 1), [begin, Eff (Throw e)])
         | Inr str \<Rightarrow>
            (let w = (if isModified then written_content u g f1 else (Inr [], f1));
                 f2 = snd w
             in case fst w of
                  Inl e \<Rightarrow> ((f2, g, 1), [begin, Eff (Throw e)])
                | Inr bytes \<Rightarrow>
                   (let transfer = (if isModified then Fs (FsWriteFile (JStr savePath) bytes)
                                    else Fs (FsCopyFile (srcPath f1) savePath));
                        writesMap = (\<not> truthy (get_sourceMapInline g f2)
                                     \<and> sm_truthy (sourceMapData f) \<and> str \<noteq> [])
                    in ((f2, g, if writesMap then 2 else 1),
                        [begin, transfer]
                        @ (if writesMap then [Fs (FsWriteFile smPath (stringToBuffer u str (JStr ''utf-8'')))]
                           else [])))))"

definition save ::
  "Utility \<Rightarrow> Globals \<Rightarrow> string option \<Rightarrow> File \<Rightarrow> (File \<times> Globals \<times> int) \<times> save_effect list" where
  "save u g dir f =
     (let savePath = save_path u dir f
      in if (case onValidateFile g of Some h \<Rightarrow> \<not> h savePath f | None \<Rightarrow> False)
         then ((f, g, 0), [Eff (Callback None)])
         else if pathEquals u (srcPath f) savePath \<and> \<not> save_modified g f
         then ((f, g, 0), [Eff (Callback None)])
         else if pathEquals u (srcPath f) savePath \<and> \<not> truthy (get_overwrite g f)
         then ((fst (error u g overwrite_diagnostic f), g, 0),
               map Eff (followed_by (snd (error u g overwrite_diagnostic f)) [Callback (Some EEXIST)]))
         else if clean_mode g
         then ((f, g, if truthy (save_sourceMapPath g f savePath) then 2 else 1),
               [Eff (BeginAsync ''Clean: {file}''), Fs (FsDeleteFile (JStr savePath))]
               @ (if truthy (save_sourceMapPath g f savePath)
                  then [Fs (FsDeleteFile (save_sourceMapPath g f savePath))] else []))
         else if preview_mode g
         then (fst (save_done u savePath None (f, g, 1)),
               Eff (BeginAsync ''Preview: {file}'') # map Eff (snd (save_done u savePath None (f, g, 1))))
         else save_build u g savePath f)"


text \<open>The file-system operations among the effects of a call.\<close>

fun fs_effects :: "save_effect list \<Rightarrow> fs_effect list" where
  "fs_effects [] = []"
| "fs_effects (Fs x # es) = x # fs_effects es"
| "fs_effects (_ # es) = fs_effects es"

fun callbacks :: "save_effect list \<Rightarrow> ErrnoException option list" where
  "callbacks [] = []"
| "callbacks (Eff (Callback e) # es) = e # callbacks es"
| "callbacks (_ # es) = callbacks es"

subsection \<open>Sample values\<close>

text \<open>
  The values the module-level variables of file.ts are initialised with, and one
  simple choice of the imported utility functions, for evaluating the model on
  concrete files: paths joined with a slash, one byte per character, the empty path
  naming no file.
\<close>

definition default_Globals :: Globals where
  "default_Globals = \<lparr>workingMode = WorkingMode_build, encoding = ''utf-8'', overwrite = False,
     sourceMap = True, sourceMapPath = None, sourceMapUrl = None, sourceMapSource = None,
     sourceMapSourceContent = None, sourceMapInline = False, sourceMapEmit = True,
     sourceMapRoot = [], sourceMapIncludeSourcesContent = False, sourceMapIncludeFile = True,
     sourceMapIncludeNames = True, onValidateSourceMap = None, fileCount = 0,
     onValidateFile = None, onSaveFile = None, onDeleteFile = None, onLogFile = None\<rparr>"

definition sample_resolvePath :: "jsval list \<Rightarrow> string" where
  "sample_resolvePath ps =
     (case ps of
        [JStr p] \<Rightarrow> p
      | [JStr d, JStr p] \<Rightarrow> (if d = ''.'' then p else d @ ''/'' @ p)
      | _ \<Rightarrow> [])"

definition sample_new_LogEntry :: "LogData \<Rightarrow> LogEntry" where
  "sample_new_LogEntry d =
     (case d of
        LogString s \<Rightarrow> blank_LogEntry\<lparr>le_message := s\<rparr>
      | LogError e \<Rightarrow> blank_LogEntry\<lparr>le_message := err_message e, le_error := Some e\<rparr>
      | LogObject e \<Rightarrow> e)"

definition blank_SourceMapObject :: SourceMapObject where
  "blank_SourceMapObject = \<lparr>sm_version = 3, sm_sources = [], sm_mappings = [], sm_file = None,
     sm_sourceRoot = None, sm_sourcesContent = None, sm_names = None\<rparr>"

definition sample_Utility :: Utility where
  "sample_Utility = \<lparr>
     resolvePath = sample_resolvePath,
     pathEquals = (\<lambda>a b. a = b),
     relativeUrl = (\<lambda>b t. t),
     getDisplayName = (\<lambda>p. p),
     stringToBuffer = (\<lambda>s e. map (\<lambda>c. of_nat (of_char c)) s),
     bufferToString = (\<lambda>b e. map (\<lambda>w. char_of (unat w)) b),
     base64Uri = (\<lambda>m p. ''data:'' @ m @ '';base64,'' @ p),
     readFileSync = (\<lambda>p. Inr []),
     existsFileSync = (\<lambda>p. False),
     toSourceMapObject = (\<lambda>d. case d of RawSourceMap m \<Rightarrow> m | BuilderSourceMap m \<Rightarrow> m
                                 | JsonSourceMap s \<Rightarrow> blank_SourceMapObject),
     toSourceMapBuilder = (\<lambda>d. case d of RawSourceMap m \<Rightarrow> BuilderSourceMap m | _ \<Rightarrow> d),
     getSource = (\<lambda>d l c. \<lparr>sourcePath = [], sourceContent = None, line = l, column = c\<rparr>),
     emitSourceMapUrl = (\<lambda>c url js. c),
     JSON_stringify = (\<lambda>m. ''{}''),
     new_LogEntry = sample_new_LogEntry\<rparr>"

text \<open>A source file \<open>a.txt\<close> not yet read, and the same file after \<open>content = "hi"\<close>.\<close>

definition sample_File :: File where
  "sample_File = blank_File\<lparr>srcPath := ''a.txt'', path := ''a.txt''\<rparr>"

definition edited_File :: File where
  "edited_File = set_content ''hi'' sample_File"


text \<open>
  A file \<open>a.js\<close> whose content a processor replaced and to which it attached a
  source map with the one source \<open>a.js\<close>.
\<close>

definition mapped_File :: File where
  "mapped_File = (set_content ''VAR X = 1;'' (blank_File\<lparr>srcPath := ''a.js'', path := ''a.js''\<rparr>))
     \<lparr>sourceMapData := Some (RawSourceMap (blank_SourceMapObject\<lparr>sm_sources := [''a.js'']\<rparr>))\<rparr>"

text \<open>Two errors a read can fail with, and a file made by a processor (no source path).\<close>

definition ENOENT :: ErrnoException where
  "ENOENT = \<lparr>err_message = ''ENOENT'', err_code = Some ''ENOENT'', err_errno = None\<rparr>"


definition generated_File :: File where
  "generated_File = blank_File\<lparr>path := ''b.txt''\<rparr>"

text \<open>The same utility functions on a disk where no file can be read.\<close>

definition unreadable_Utility :: Utility where
  "unreadable_Utility = sample_Utility\<lparr>readFileSync := (\<lambda>p. Inl ENOENT)\<rparr>"


text \<open>The same utility functions on a disk where every file holds the two bytes of \<open>hi\<close>.\<close>

definition hi_Utility :: Utility where
  "hi_Utility = sample_Utility\<lparr>readFileSync := (\<lambda>p. Inr [104, 105])\<rparr>"

section \<open>The plugin loader (lib/builder/plugin.ts)\<close>

text \<open>
  Node's \<open>require.resolve\<close> and \<open>require\<close> are parameters: \<open>None\<close> and \<open>Inl\<close> are a thrown
  error. The table \<open>plugins\<close> maps names to exported values.
\<close>

record Node =
  require_resolve :: "string \<Rightarrow> string option"
  require :: "string \<Rightarrow> string + jsval"

datatype plugin_effect = Begin string | End | Resolve string | Require string

definition word_char :: "char \<Rightarrow> bool" where
  "word_char c = (let n = (of_char c :: nat) in
     (48 \<le> n \<and> n \<le> 57) \<or> (65 \<le> n \<and> n \<le> 90) \<or> (97 \<le> n \<and> n \<le> 122) \<or> n = 95)"

text \<open>\<open>/^[\.\/\\]|^\w+\:/.test(name)\<close>\<close>

definition isRelative :: "string \<Rightarrow> bool" where
  "isRelative name =
     ((case name of [] \<Rightarrow> False | c # _ \<Rightarrow> c = CHR ''.'' \<or> c = CHR ''/'' \<or> c = CHR 0x5C)
      \<or> (takeWhile word_char name \<noteq> []
          \<and> (case dropWhile word_char name of [] \<Rightarrow> False | c # _ \<Rightarrow> c = CHR '':'')))"

definition not_found :: "bool \<Rightarrow> string \<Rightarrow> string" where
  "not_found rel name =
     (if rel then ''Cannot find plugin '' @ [CHR 0x27] @ name @ [CHR 0x27] @ ''.''
      else ''Cannot find plugin '' @ [CHR 0x27] @ name @ [CHR 0x27] @ ''. Use ''
           @ [CHR 0x27] @ ''npm install '' @ name @ [CHR 0x27] @ '' to install it.'')"

text \<open>\<open>return plugins[name] = require(name)\<close>, with \<open>name\<close> the resolved path.\<close>

definition plugin_require ::
  "Node \<Rightarrow> string \<Rightarrow> (string \<Rightarrow> jsval option) \<Rightarrow> plugin_effect list
     \<Rightarrow> (string + jsval) \<times> (string \<Rightarrow> jsval option) \<times> plugin_effect list" where
  "plugin_require n resolved plugins fx =
     (case require n resolved of
        Inr v \<Rightarrow> (Inr v, plugins(resolved := Some v), fx @ [Require resolved, End])
      | Inl e \<Rightarrow> (Inl e, plugins, fx @ [Require resolved, End]))"

definition plugin ::
  "Utility \<Rightarrow> Node \<Rightarrow> string \<Rightarrow> (string \<Rightarrow> jsval option)
     \<Rightarrow> (string + jsval) \<times> (string \<Rightarrow> jsval option) \<times> plugin_effect list" where
  "plugin u n name plugins =
     (if (case plugins name of Some v \<Rightarrow> truthy v | None \<Rightarrow> False)
      then (Inr (the (plugins name)), plugins, [])
      else
        (let first = resolvePath u [JStr (if isRelative name then ''.'' else ''node_modules''), JStr name]
         in case require_resolve n first of
              Some resolved \<Rightarrow>
                plugin_require n resolved plugins [Begin ''Load plugin: {plugin}'', Resolve first]
            | None \<Rightarrow>
                (case require_resolve n name of
                   Some resolved \<Rightarrow>
                     plugin_require n resolved plugins
                       [Begin ''Load plugin: {plugin}'', Resolve first, Resolve name]
                 | None \<Rightarrow>
                     (Inl (not_found (isRelative name) name), plugins,
                      [Begin ''Load plugin: {plugin}'', Resolve first, Resolve name, End]))))"

text \<open>An installation with one package \<open>foo\<close> under \<open>node_modules\<close>.\<close>

definition sample_Node :: Node where
  "sample_Node = \<lparr>
     require_resolve = (\<lambda>p. if p = ''node_modules/foo'' then Some ''node_modules/foo/index.js'' else None),
     require = (\<lambda>p. if p = ''node_modules/foo/index.js'' then Inr (JStr ''foo plugin'')
                     else Inl ''MODULE_NOT_FOUND'')\<rparr>"

section \<open>The file list (lib/builder/fileList.ts)\<close>

text \<open>
  Files are objects shared by the lists they pass through, so a list holds
  references (\<open>fref\<close>) and the files themselves live in a heap. The listeners of a
  list are kept per event name in the order they were registered, as the
  \<open>EventEmitter\<close> keeps them. What a method of the list returns besides the list is
  the sequence of listener invocations it makes before it returns: \<open>Call l a\<close> is
  \<open>l.call(this, a)\<close>. Listeners are taken not to call back into the list they are
  invoked by while it is iterating.
\<close>

type_synonym fref = nat

datatype arg = DataArg fref | EndArg "fref list"

datatype 'l call = Call 'l arg

record 'l FileList =
  files :: "fref list"
  ended :: bool
  listeners :: "string \<Rightarrow> 'l list"

definition new_FileList :: "'l FileList" where
  "new_FileList = \<lparr>files = [], ended = False, listeners = (\<lambda>_. [])\<rparr>"

definition emit :: "string \<Rightarrow> arg \<Rightarrow> 'l FileList \<Rightarrow> 'l call list" where
  "emit ev a fl = map (\<lambda>l. Call l a) (listeners fl ev)"

definition add :: "fref \<Rightarrow> 'l FileList \<Rightarrow> 'l FileList \<times> 'l call list" where
  "add file fl = (fl\<lparr>files := files fl @ [file]\<rparr>, emit ''data'' (DataArg file) fl)"

definition end_list :: "'l FileList \<Rightarrow> 'l FileList \<times> 'l call list" where
  "end_list fl = (fl\<lparr>ended := True\<rparr>, emit ''end'' (EndArg (files fl)) fl)"

definition on :: "string \<Rightarrow> 'l \<Rightarrow> 'l FileList \<Rightarrow> 'l FileList \<times> 'l call list" where
  "on ev l fl =
     (fl\<lparr>listeners := (listeners fl)(ev := listeners fl ev @ [l])\<rparr>,
      if ev = ''data'' then map (\<lambda>file. Call l (DataArg file)) (files fl)
      else if ev = ''end'' then (if ended fl then [Call l (EndArg (files fl))] else [])
      else [])"

text \<open>A history of a list: the calls of its methods, in order.\<close>

datatype 'l list_op = Add fref | EndList | On string 'l

fun apply_op :: "'l FileList \<Rightarrow> 'l list_op \<Rightarrow> 'l FileList" where
  "apply_op fl (Add file) = fst (add file fl)"
| "apply_op fl EndList = fst (end_list fl)"
| "apply_op fl (On ev l) = fst (on ev l fl)"

fun added :: "'l list_op list \<Rightarrow> fref list" where
  "added [] = []"
| "added (Add file # ops) = file # added ops"
| "added (_ # ops) = added ops"

section \<open>pipe with a function processor (fileList.ts:1196-1296)\<close>

text \<open>
  A stage is the list \<open>this\<close> (\<open>srcList\<close>), the list \<open>result\<close> that \<open>pipe\<close> returns, and
  the variables the closures of \<open>pipe\<close> share. It reacts to events: the source list
  is given a file or ended, the task barrier runs the continuation \<open>pipe\<close> handed to
  \<open>then\<close> (which subscribes to the two \<open>end\<close> events), a \<open>readFile\<close> started by
  \<open>file.load\<close> completes, or a processor that has returned calls \<open>done\<close>. Events that
  match nothing of the stage change nothing.

  A processor is a function on the heap: it may change files and then returns
  normally without having called \<open>done\<close> (\<open>Returned\<close>), returns after having called
  \<open>done\<close> once (\<open>CalledDone\<close>), throws before calling it (\<open>Threw\<close>), or calls \<open>done\<close> once
  and then throws (\<open>DoneThenThrew\<close>). \<open>arity\<close> is \<open>processor.length\<close> and \<open>pname\<close> is
  \<open>processor.name\<close>. With arity below 3 the processor is passed \<open>null\<close> for \<open>done\<close>: every
  return counts as normal and every throw as a throw before \<open>done\<close>. A processor of
  arity below 5 is taken not to add to or end \<open>result\<close> itself, and a processor is
  taken not to catch what its call of \<open>done\<close> throws.
\<close>

datatype listener = PipeData | PipeEnd | ThenDone | Other nat

datatype outcome = Returned | CalledDone | Threw ErrnoException | DoneThenThrew ErrnoException

record Processor =
  body :: "(fref \<Rightarrow> File) \<Rightarrow> fref \<Rightarrow> (fref \<Rightarrow> File) \<times> outcome"
  arity :: nat
  pname :: string

datatype phase = Loading | Running

text \<open>
  What the stage is seen to do: start the processor on a file, run the \<open>done\<close>
  callback of a file, catch what the processor threw, skip a file whose load
  failed, and invoke a listener of \<open>result\<close>.
\<close>

datatype obs = Started fref | Finished fref | Caught fref | Skipped fref | Delivered "listener call"

text \<open>
  The state of a stage. \<open>reading\<close> and \<open>running\<close> are the files of the per-file modes
  whose \<open>readFile\<close> is outstanding and whose processor has returned without calling
  \<open>done\<close>. \<open>whole\<close> holds what the whole-list mode waits for: the list handed to the
  \<open>end\<close> listener, the index, and whether the file is being read or is in the
  processor. \<open>called\<close> holds the \<open>done\<close> callbacks that have run, or whose invocation
  has thrown, each as the list and index it was made for (in the per-file modes the
  file alone, at index 0): nothing keeps the processor from calling one again.
  \<open>armed\<close> tells whether \<open>pipe\<close> reached its call of \<open>then\<close>, and \<open>raised\<close> is the
  exception that is leaving the handler being run, if any.
\<close>

record pipe_state =
  heap :: "fref \<Rightarrow> File"
  srcList :: "listener FileList"
  result :: "listener FileList"
  pending :: int
  reading :: "fref list"
  running :: "fref list"
  whole :: "(fref list \<times> nat \<times> phase) list"
  called :: "(fref list \<times> nat) list"
  armed :: bool
  raised :: "ErrnoException option"
  trace :: "obs list"

definition result_add :: "fref \<Rightarrow> pipe_state \<Rightarrow> pipe_state" where
  "result_add file s =
     s\<lparr>result := fst (add file (result s)),
       trace := trace s @ map Delivered (snd (add file (result s)))\<rparr>"

definition result_end :: "pipe_state \<Rightarrow> pipe_state" where
  "result_end s =
     s\<lparr>result := fst (end_list (result s)),
       trace := trace s @ map Delivered (snd (end_list (result s)))\<rparr>"

text \<open>
  The call in the \<open>catch\<close> blocks:
  \<open>file.error({plugin: processor.name, path: file.srcPath, error: e})\<close>. When it
  throws, the exception leaves the \<open>catch\<close> block.
\<close>

definition file_error :: "Utility \<Rightarrow> Globals \<Rightarrow> Processor \<Rightarrow> fref \<Rightarrow> ErrnoException \<Rightarrow> pipe_state \<Rightarrow> pipe_state" where
  "file_error u g p file e s =
     s\<lparr>heap := (heap s)(file := fst (error u g
                   (LogObject (blank_LogEntry\<lparr>le_plugin := Some (pname p),
                      le_path := Some (srcPath (heap s file)), le_error := Some e\<rparr>))
                   (heap s file))),
       raised := thrown (snd (error u g
                   (LogObject (blank_LogEntry\<lparr>le_plugin := Some (pname p),
                      le_path := Some (srcPath (heap s file)), le_error := Some e\<rparr>))
                   (heap s file))),
       trace := trace s @ [Caught file]\<rparr>"

text \<open>The processor was passed the \<open>done\<close> callback made for index \<open>i\<close> of \<open>fs\<close>, which has run or will not.\<close>

definition closed :: "Processor \<Rightarrow> fref list \<Rightarrow> nat \<Rightarrow> pipe_state \<Rightarrow> pipe_state" where
  "closed p fs i s = (if arity p < 3 then s else s\<lparr>called := called s @ [(fs, i)]\<rparr>)"

subsection \<open>Per-file modes (arity below 4)\<close>

text \<open>The function \<open>done\<close> of fileList.ts:1216.\<close>

definition done_file :: "fref \<Rightarrow> pipe_state \<Rightarrow> pipe_state" where
  "done_file file s =
     (let s1 = result_add file (s\<lparr>trace := trace s @ [Finished file]\<rparr>)
      in if pending s1 - 1 > 0 then s1\<lparr>pending := pending s1 - 1\<rparr>
         else result_end (s1\<lparr>pending := pending s1 - 1\<rparr>))"

text \<open>The callback of \<open>file.load\<close> when the load failed (fileList.ts:1208-1211).\<close>

definition load_failed :: "fref \<Rightarrow> pipe_state \<Rightarrow> pipe_state" where
  "load_failed file s =
     (let s1 = s\<lparr>trace := trace s @ [Skipped file]\<rparr>
      in if pending s1 - 1 > 0 then s1\<lparr>pending := pending s1 - 1\<rparr>
         else result_end (s1\<lparr>pending := pending s1 - 1\<rparr>))"

text \<open>A \<open>catch\<close> block and the call of \<open>done\<close> that follows \<open>file.error\<close> (fileList.ts:1225-1243).\<close>

definition caught_file :: "Utility \<Rightarrow> Globals \<Rightarrow> Processor \<Rightarrow> fref \<Rightarrow> ErrnoException \<Rightarrow> pipe_state \<Rightarrow> pipe_state" where
  "caught_file u g p file e s =
     (if raised (file_error u g p file e s) = None then done_file file (file_error u g p file e s)
      else file_error u g p file e s)"

text \<open>The callback of \<open>file.load\<close> when the file is loaded (fileList.ts:1212-1244).\<close>

definition process_file :: "Utility \<Rightarrow> Globals \<Rightarrow> Processor \<Rightarrow> fref \<Rightarrow> pipe_state \<Rightarrow> pipe_state" where
  "process_file u g p file s =
     (let s1 = s\<lparr>heap := fst (body p (heap s) file), trace := trace s @ [Started file]\<rparr>
      in case snd (body p (heap s) file) of
           Threw e \<Rightarrow> caught_file u g p file e (closed p [file] 0 s1)
         | DoneThenThrew e \<Rightarrow>
             (if arity p < 3 then caught_file u g p file e s1
              else caught_file u g p file e (done_file file (closed p [file] 0 s1)))
         | CalledDone \<Rightarrow> done_file file (closed p [file] 0 s1)
         | Returned \<Rightarrow> (if arity p < 3 then done_file file s1
                        else s1\<lparr>running := running s1 @ [file]\<rparr>))"

text \<open>The listener of \<open>data\<close> on the source list (fileList.ts:1205-1246).\<close>

definition on_data :: "Utility \<Rightarrow> Globals \<Rightarrow> Processor \<Rightarrow> fref \<Rightarrow> pipe_state \<Rightarrow> pipe_state" where
  "on_data u g p file s =
     (let s1 = s\<lparr>pending := pending s + 1\<rparr>
      in if snd (load u g (heap s1 file)) = [Callback None] then process_file u g p file s1
         else s1\<lparr>reading := reading s1 @ [file]\<rparr>)"

text \<open>The listener of \<open>end\<close> on the source list (fileList.ts:1249-1252).\<close>

definition on_end_file :: "pipe_state \<Rightarrow> pipe_state" where
  "on_end_file s =
     (if pending s - 1 > 0 then s\<lparr>pending := pending s - 1\<rparr>
      else result_end (s\<lparr>pending := pending s - 1\<rparr>))"

text \<open>
  The \<open>readFile\<close> of a file being read completes: the callback of \<open>load\<close> runs, and then
  the callback \<open>pipe\<close> gave to \<open>load\<close>, unless \<open>this.error\<close> threw.
\<close>

definition read_done_file ::
  "Utility \<Rightarrow> Globals \<Rightarrow> Processor \<Rightarrow> fref \<Rightarrow> ErrnoException + Buffer \<Rightarrow> pipe_state \<Rightarrow> pipe_state" where
  "read_done_file u g p file r s =
     (if file \<in> set (reading s)
      then (let s1 = s\<lparr>reading := remove1 file (reading s),
                       heap := (heap s)(file := fst (load_readFile u g r (heap s file)))\<rparr>
            in case r of
                 Inl e \<Rightarrow>
                   (if thrown (snd (load_readFile u g r (heap s file))) = None
                    then load_failed file s1
                    else s1\<lparr>raised := thrown (snd (load_readFile u g r (heap s file)))\<rparr>)
               | Inr b \<Rightarrow> process_file u g p file s1)
      else s)"

text \<open>
  The processor calls \<open>done\<close> after it has returned: for a file in the processor, or
  else once more for a file whose \<open>done\<close> has run already.
\<close>

definition proc_done_file :: "fref \<Rightarrow> pipe_state \<Rightarrow> pipe_state" where
  "proc_done_file file s =
     (if file \<in> set (running s)
      then done_file file (s\<lparr>running := remove1 file (running s), called := called s @ [([file], 0)]\<rparr>)
      else if ([file], 0) \<in> set (called s) then done_file file s
      else s)"

subsection \<open>Whole-list mode (arity 4 and above)\<close>

text \<open>The function \<open>done\<close> of fileList.ts:1273, up to its call of \<open>proc\<close>.\<close>

definition whole_done :: "Processor \<Rightarrow> fref \<Rightarrow> pipe_state \<Rightarrow> pipe_state" where
  "whole_done p file s =
     (let s1 = (if arity p < 5 then result_add file s else s)
      in s1\<lparr>trace := trace s1 @ [Finished file]\<rparr>)"

text \<open>
  The \<open>catch\<close> block of fileList.ts:1280-1288; \<open>next\<close> is \<open>proc(index + 1)\<close>, which is
  not reached when \<open>file.error\<close> throws.
\<close>

definition whole_caught ::
  "Utility \<Rightarrow> Globals \<Rightarrow> Processor \<Rightarrow> fref \<Rightarrow> ErrnoException \<Rightarrow> (pipe_state \<Rightarrow> pipe_state)
     \<Rightarrow> pipe_state \<Rightarrow> pipe_state" where
  "whole_caught u g p file e next s =
     (if raised (file_error u g p file e s) = None then next (file_error u g p file e s)
      else file_error u g p file e s)"

text \<open>
  The callback of \<open>files[index].load\<close> when the file is loaded (fileList.ts:1268-1288);
  \<open>next\<close> is \<open>proc(index + 1)\<close>. The \<open>done\<close> callback calls \<open>proc(index + 1)\<close> inside the
  call of the processor, so what that throws reaches the \<open>catch\<close> block of this
  invocation, and a processor that throws after calling \<open>done\<close> makes the \<open>catch\<close> block
  call \<open>proc(index + 1)\<close> a second time.
\<close>

definition whole_loaded ::
  "Utility \<Rightarrow> Globals \<Rightarrow> Processor \<Rightarrow> fref list \<Rightarrow> nat \<Rightarrow> (pipe_state \<Rightarrow> pipe_state)
     \<Rightarrow> pipe_state \<Rightarrow> pipe_state" where
  "whole_loaded u g p fs index next s =
     (let file = fs ! index;
          s1 = s\<lparr>heap := fst (body p (heap s) file), trace := trace s @ [Started file]\<rparr>
      in case snd (body p (heap s) file) of
           Returned \<Rightarrow> s1\<lparr>whole := whole s1 @ [(fs, index, Running)]\<rparr>
         | CalledDone \<Rightarrow>
             (let s2 = next (whole_done p file (closed p fs index s1))
              in case raised s2 of
                   None \<Rightarrow> s2
                 | Some x \<Rightarrow> whole_caught u g p file x next (s2\<lparr>raised := None\<rparr>))
         | Threw e \<Rightarrow> whole_caught u g p file e next (closed p fs index s1)
         | DoneThenThrew e \<Rightarrow>
             (let s2 = next (whole_done p file (closed p fs index s1))
              in whole_caught u g p file (case raised s2 of None \<Rightarrow> e | Some x \<Rightarrow> x) next
                   (s2\<lparr>raised := None\<rparr>)))"

text \<open>The function \<open>proc\<close> of fileList.ts:1259, for the list \<open>fs\<close> handed to the \<open>end\<close> listener.\<close>

function proc :: "Utility \<Rightarrow> Globals \<Rightarrow> Processor \<Rightarrow> fref list \<Rightarrow> nat \<Rightarrow> pipe_state \<Rightarrow> pipe_state" where
  "proc u g p fs index s =
     (if ended (result s) then s
      else if length fs \<le> index then result_end s
      else if snd (load u g (heap s (fs ! index))) = [Callback None]
      then whole_loaded u g p fs index (proc u g p fs (index + 1)) s
      else s\<lparr>whole := whole s @ [(fs, index, Loading)]\<rparr>)"
  by pat_completeness auto
termination
  by (relation "measure (\<lambda>(u, g, p, fs, index, s). length fs - index)") simp_all

declare proc.simps [simp del]

text \<open>What the stage waits for on a file, in a given phase; a \<open>done\<close> callback made for a file.\<close>

definition waiting :: "phase \<Rightarrow> fref \<Rightarrow> fref list \<times> nat \<times> phase \<Rightarrow> bool" where
  "waiting ph file w = (case w of (fs, i, ph') \<Rightarrow> ph' = ph \<and> i < length fs \<and> fs ! i = file)"

definition made_for :: "fref \<Rightarrow> fref list \<times> nat \<Rightarrow> bool" where
  "made_for file c = (case c of (fs, i) \<Rightarrow> i < length fs \<and> fs ! i = file)"

definition read_done_whole ::
  "Utility \<Rightarrow> Globals \<Rightarrow> Processor \<Rightarrow> fref \<Rightarrow> ErrnoException + Buffer \<Rightarrow> pipe_state \<Rightarrow> pipe_state" where
  "read_done_whole u g p file r s =
     (case find (waiting Loading file) (whole s) of
        None \<Rightarrow> s
      | Some (fs, index, ph) \<Rightarrow>
          (let s1 = s\<lparr>whole := remove1 (fs, index, ph) (whole s),
                      heap := (heap s)(file := fst (load_readFile u g r (heap s file)))\<rparr>
           in case r of
                Inl e \<Rightarrow>
                  (if thrown (snd (load_readFile u g r (heap s file))) = None
                   then proc u g p fs (index + 1) (s1\<lparr>trace := trace s1 @ [Skipped file]\<rparr>)
                   else s1\<lparr>raised := thrown (snd (load_readFile u g r (heap s file)))\<rparr>)
              | Inr b \<Rightarrow> whole_loaded u g p fs index (proc u g p fs (index + 1)) s1))"

definition proc_done_whole :: "Utility \<Rightarrow> Globals \<Rightarrow> Processor \<Rightarrow> fref \<Rightarrow> pipe_state \<Rightarrow> pipe_state" where
  "proc_done_whole u g p file s =
     (case find (waiting Running file) (whole s) of
        Some (fs, index, ph) \<Rightarrow>
          proc u g p fs (index + 1)
            (whole_done p file (s\<lparr>whole := remove1 (fs, index, ph) (whole s),
                                   called := called s @ [(fs, index)]\<rparr>))
      | None \<Rightarrow>
          (case find (made_for file) (called s) of
             Some (fs, index) \<Rightarrow> proc u g p fs (index + 1) (whole_done p file s)
           | None \<Rightarrow> s))"

subsection \<open>The stage\<close>

datatype event = SrcAdd fref | SrcEnd | Then | ReadDone fref "ErrnoException + Buffer" | ProcDone fref

text \<open>
  An invocation of a listener of the source list; listeners of other parties are not
  the stage's. Once a listener has thrown, the listeners after it are not invoked.
\<close>

definition deliver :: "Utility \<Rightarrow> Globals \<Rightarrow> Processor \<Rightarrow> pipe_state \<Rightarrow> listener call \<Rightarrow> pipe_state" where
  "deliver u g p s c =
     (if raised s \<noteq> None then s
      else case c of
             Call PipeData (DataArg file) \<Rightarrow> on_data u g p file s
           | Call PipeEnd (EndArg fs) \<Rightarrow> (if arity p < 4 then on_end_file s else proc u g p fs 0 s)
           | _ \<Rightarrow> s)"

text \<open>
  One event. What an earlier event raised has left the program by now. The
  continuation exists only when \<open>pipe\<close> reached its call of \<open>then\<close>.
\<close>

definition pipe_step :: "Utility \<Rightarrow> Globals \<Rightarrow> Processor \<Rightarrow> pipe_state \<Rightarrow> event \<Rightarrow> pipe_state" where
  "pipe_step u g p s ev =
     (case ev of
        SrcAdd file \<Rightarrow>
          foldl (deliver u g p) (s\<lparr>raised := None, srcList := fst (add file (srcList s))\<rparr>)
            (snd (add file (srcList s)))
      | SrcEnd \<Rightarrow>
          foldl (deliver u g p) (s\<lparr>raised := None, srcList := fst (end_list (srcList s))\<rparr>)
            (snd (end_list (srcList s)))
      | Then \<Rightarrow>
          (if armed s
           then foldl (deliver u g p)
                  (s\<lparr>raised := None,
                     result := fst (on ''end'' ThenDone (result s)),
                     trace := trace s @ map Delivered (snd (on ''end'' ThenDone (result s))),
                     srcList := fst (on ''end'' PipeEnd (srcList s))\<rparr>)
                  (snd (on ''end'' PipeEnd (srcList s)))
           else s\<lparr>raised := None\<rparr>)
      | ReadDone file r \<Rightarrow>
          (if arity p < 4 then read_done_file u g p file r (s\<lparr>raised := None\<rparr>)
           else read_done_whole u g p file r (s\<lparr>raised := None\<rparr>))
      | ProcDone file \<Rightarrow>
          (if arity p < 4 then proc_done_file file (s\<lparr>raised := None\<rparr>)
           else proc_done_whole u g p file (s\<lparr>raised := None\<rparr>)))"

text \<open>
  \<open>this.pipe(processor)\<close> up to its \<open>return result\<close>, on a source list and a heap. In
  the per-file modes the files already in the list are replayed to the \<open>data\<close>
  listener; when that throws, \<open>pipe\<close> throws before it calls \<open>then\<close>.
\<close>

definition pipe :: "Utility \<Rightarrow> Globals \<Rightarrow> Processor \<Rightarrow> listener FileList \<Rightarrow> (fref \<Rightarrow> File) \<Rightarrow> pipe_state" where
  "pipe u g p src h =
     (let s0 = \<lparr>heap = h, srcList = src, result = new_FileList, pending = 1, reading = [],
                running = [], whole = [], called = [], armed = True, raised = None, trace = []\<rparr>;
          s1 = foldl (deliver u g p) (s0\<lparr>srcList := fst (on ''data'' PipeData src)\<rparr>)
                 (snd (on ''data'' PipeData src))
      in if arity p < 4 then s1\<lparr>armed := (raised s1 = None)\<rparr> else s0)"

definition run :: "Utility \<Rightarrow> Globals \<Rightarrow> Processor \<Rightarrow> pipe_state \<Rightarrow> event list \<Rightarrow> pipe_state" where
  "run u g p s evs = foldl (pipe_step u g p) s evs"

subsection \<open>Reading a run of the stage\<close>

text \<open>The files a trace shows as skipped, finished, caught, and handled in any of these ways.\<close>

fun skipped :: "obs list \<Rightarrow> fref list" where
  "skipped [] = []"
| "skipped (Skipped file # tr) = file # skipped tr"
| "skipped (_ # tr) = skipped tr"

fun finished :: "obs list \<Rightarrow> fref list" where
  "finished [] = []"
| "finished (Finished file # tr) = file # finished tr"
| "finished (_ # tr) = finished tr"

fun caught :: "obs list \<Rightarrow> fref list" where
  "caught [] = []"
| "caught (Caught file # tr) = file # caught tr"
| "caught (_ # tr) = caught tr"

fun handled :: "obs list \<Rightarrow> fref list" where
  "handled [] = []"
| "handled (Skipped file # tr) = file # handled tr"
| "handled (Finished file # tr) = file # handled tr"
| "handled (Caught file # tr) = file # handled tr"
| "handled (_ # tr) = handled tr"

text \<open>
  Processing is sequential when the processor is started only while no invocation
  is outstanding, an invocation being outstanding from its start until its \<open>done\<close>
  callback runs or what it threw is caught. \<open>track\<close> follows a trace with the
  outstanding file, if any; \<open>None\<close> records a violation.
\<close>

fun track :: "fref option option \<Rightarrow> obs \<Rightarrow> fref option option" where
  "track None x = None"
| "track (Some cur) (Started file) = (if cur = None then Some (Some file) else None)"
| "track (Some cur) (Finished file) = (if cur = Some file then Some None else None)"
| "track (Some cur) (Caught file) = (if cur = Some file then Some None else None)"
| "track (Some cur) (Skipped file) = Some cur"
| "track (Some cur) (Delivered c) = Some cur"




definition repeated :: "Processor \<Rightarrow> fref \<Rightarrow> pipe_state \<Rightarrow> bool" where
  "repeated p file s =
     (if arity p < 4 then file \<notin> set (running s) \<and> ([file], 0) \<in> set (called s)
      else find (waiting Running file) (whole s) = None \<and> find (made_for file) (called s) \<noteq> None)"

primrec punctual :: "Utility \<Rightarrow> Globals \<Rightarrow> Processor \<Rightarrow> event list \<Rightarrow> pipe_state \<Rightarrow> bool" where
  "punctual u g p [] s = True"
| "punctual u g p (ev # evs) s =
     ((case ev of ProcDone file \<Rightarrow> \<not> repeated p file s | _ \<Rightarrow> True)
      \<and> punctual u g p evs (pipe_step u g p s ev))"

text \<open>No synchronous read fails, so that no getter and no diagnostic throws.\<close>

definition readable :: "Utility \<Rightarrow> bool" where
  "readable u = (\<forall>path. \<not> isl (readFileSync u path))"










subsection \<open>Sample stages\<close>

text \<open>
  A processor of arity 2 that does nothing, one of arity 2 that always throws, one
  of arity 4 that puts the path of the file in upper case and calls \<open>done\<close>, one of
  arity 4 that throws on the file at reference 0 and calls \<open>done\<close> on the others, and
  one of arity 3 that calls \<open>done\<close> and then throws; a heap of three generated files
  \<open>a\<close>, \<open>b\<close>, \<open>c\<close> at the references 0, 1, 2.
\<close>

definition idle_Processor :: Processor where
  "idle_Processor = \<lparr>body = (\<lambda>h file. (h, Returned)), arity = 2, pname = ''idle''\<rparr>"






definition abc_heap :: "fref \<Rightarrow> File" where
  "abc_heap file = (if file = 0 then blank_File\<lparr>path := ''a''\<rparr>
                    else if file = 1 then blank_File\<lparr>path := ''b''\<rparr>
                    else blank_File\<lparr>path := ''c''\<rparr>)"

section \<open>Properties of the file object\<close>

lemma get_encoding_slots [simp]:
  "get_encoding g (f\<lparr>priv_destBuffer := b\<rparr>) = get_encoding g f"
  "get_encoding g (f\<lparr>priv_destContent := c\<rparr>) = get_encoding g f"
  "get_encoding g (f\<lparr>priv_srcBuffer := b\<rparr>) = get_encoding g f"
  "get_encoding g (f\<lparr>priv_srcContent := c\<rparr>) = get_encoding g f"
  by (simp_all add: get_encoding_def read_property_def)

lemma srcBuffer_dest:
  "priv_destBuffer (snd (srcBuffer u g f)) = priv_destBuffer f"
  "priv_destContent (snd (srcBuffer u g f)) = priv_destContent f"
  by (simp_all add: srcBuffer_def split: option.splits sum.splits)

lemma srcContent_dest:
  "priv_destBuffer (snd (srcContent u g f)) = priv_destBuffer f"
  "priv_destContent (snd (srcContent u g f)) = priv_destContent f"
  by (simp_all add: srcContent_def split: option.splits sum.splits)

lemma buffer_keeps_modified: "modified (snd (buffer u g f)) = modified f"
  by (simp add: buffer_def modified_def srcBuffer_dest split: option.splits)

lemma content_keeps_modified: "modified (snd (content u g f)) = modified f"
  by (simp add: content_def modified_def srcContent_dest split: option.splits)

text \<open>
  C1 (as stated) fails: after \<open>content = "hi"\<close> exactly one dest slot is populated,
  and reading \<open>buffer\<close> then stores the converted bytes in \<open>_destBuffer\<close> without
  clearing \<open>_destContent\<close>, so both are populated while the file is modified.
\<close>

theorem C1_read_breaks_xor:
  "dest_xor edited_File \<and> modified (snd (buffer sample_Utility default_Globals edited_File))
   \<and> \<not> dest_xor (snd (buffer sample_Utility default_Globals edited_File))"
  by (simp add: dest_xor_def edited_File_def set_content_def setModified_def modified_def
        buffer_def sample_File_def blank_File_def)

text \<open>
  C1 (amended): a modified file has at least one dest slot populated; writing \<open>buffer\<close>
  or \<open>content\<close> leaves exactly the written slot populated; reading \<open>buffer\<close> when only
  \<open>_destContent\<close> is set, or \<open>content\<close> when only \<open>_destBuffer\<close> is set, fills the other
  slot with the converted value and keeps the first, so both are populated afterwards;
  no read changes \<open>modified\<close>.
\<close>

theorem C1_dest_slots:
  "(modified f \<longrightarrow> priv_destBuffer f \<noteq> None \<or> priv_destContent f \<noteq> None)
   \<and> priv_destBuffer (set_buffer b f) = Some b \<and> priv_destContent (set_buffer b f) = None
   \<and> priv_destContent (set_content s f) = Some s \<and> priv_destBuffer (set_content s f) = None
   \<and> dest_xor (set_buffer b f) \<and> dest_xor (set_content s f)
   \<and> (priv_destContent f = Some c \<and> priv_destBuffer f = None \<longrightarrow>
        priv_destBuffer (snd (buffer u g f)) = Some (stringToBuffer u c (get_encoding g f))
        \<and> priv_destContent (snd (buffer u g f)) = Some c)
   \<and> (priv_destBuffer f = Some d \<and> priv_destContent f = None \<longrightarrow>
        priv_destContent (snd (content u g f)) = Some (bufferToString u d (get_encoding g f))
        \<and> priv_destBuffer (snd (content u g f)) = Some d)
   \<and> modified (snd (buffer u g f)) = modified f
   \<and> modified (snd (content u g f)) = modified f"
proof -
  have writes: "priv_destBuffer (set_buffer b f) = Some b \<and> priv_destContent (set_buffer b f) = None
    \<and> priv_destContent (set_content s f) = Some s \<and> priv_destBuffer (set_content s f) = None
    \<and> dest_xor (set_buffer b f) \<and> dest_xor (set_content s f)"
    by (simp add: dest_xor_def modified_def set_buffer_def set_content_def setModified_def)
  have reads: "(priv_destContent f = Some c \<and> priv_destBuffer f = None \<longrightarrow>
        priv_destBuffer (snd (buffer u g f)) = Some (stringToBuffer u c (get_encoding g f))
        \<and> priv_destContent (snd (buffer u g f)) = Some c)
   \<and> (priv_destBuffer f = Some d \<and> priv_destContent f = None \<longrightarrow>
        priv_destContent (snd (content u g f)) = Some (bufferToString u d (get_encoding g f))
        \<and> priv_destBuffer (snd (content u g f)) = Some d)"
    by (simp add: buffer_def content_def)
  have some: "modified f \<longrightarrow> priv_destBuffer f \<noteq> None \<or> priv_destContent f \<noteq> None"
    by (auto simp add: modified_def)
  from writes reads some buffer_keeps_modified [of u g f] content_keeps_modified [of u g f]
  show ?thesis by blast
qed

lemma sample_bytes:
  "stringToBuffer sample_Utility ''hi'' e = [104, 105]"
  "bufferToString sample_Utility [104] e = ''h''"
  by (simp_all add: sample_Utility_def) code_simp+

theorem C1_dest_slots_witness:
  "modified edited_File
   \<and> priv_destContent edited_File = Some ''hi'' \<and> priv_destBuffer edited_File = None
   \<and> priv_destBuffer (snd (buffer sample_Utility default_Globals edited_File)) = Some [104, 105]
   \<and> priv_destContent (snd (buffer sample_Utility default_Globals edited_File)) = Some ''hi''
   \<and> priv_destBuffer (set_buffer [104] edited_File) = Some [104]
   \<and> priv_destContent (set_buffer [104] edited_File) = None
   \<and> priv_destContent (snd (content sample_Utility default_Globals (set_buffer [104] edited_File)))
       = Some ''h''"
proof -
  have a: "priv_destContent edited_File = Some ''hi'' \<and> priv_destBuffer edited_File = None"
    by (simp add: edited_File_def set_content_def setModified_def)
  have m: "modified edited_File"
    using a by (simp add: modified_def)
  have b: "priv_destBuffer (set_buffer [104] edited_File) = Some [104]
    \<and> priv_destContent (set_buffer [104] edited_File) = None"
    by (simp add: set_buffer_def setModified_def)
  from a C1_dest_slots [of edited_File "[104]" "''x''" "''hi''" sample_Utility default_Globals "[104]"]
  have r1: "priv_destBuffer (snd (buffer sample_Utility default_Globals edited_File)) = Some [104, 105]
    \<and> priv_destContent (snd (buffer sample_Utility default_Globals edited_File)) = Some ''hi''"
    by (simp add: sample_bytes)
  from b C1_dest_slots [of "set_buffer [104] edited_File" "[104]" "''x''" "''hi''"
      sample_Utility default_Globals "[104]"]
  have r2: "priv_destContent (snd (content sample_Utility default_Globals (set_buffer [104] edited_File)))
       = Some ''h''"
    by (simp add: sample_bytes)
  from a m b r1 r2 show ?thesis by simp
qed


subsection \<open>Cloning\<close>

lemma set_data_modified: "modified (set_data v f)"
  by (cases v) (simp_all add: set_data_def set_content_def set_buffer_def setModified_def modified_def)

lemma data_cases:
  "priv_destContent f = Some s \<Longrightarrow> data u g f = (Inr (Inl s), f)"
  "priv_destContent f = None \<Longrightarrow> priv_destBuffer f = Some b \<Longrightarrow> data u g f = (Inr (Inr b), f)"
  "\<not> modified f \<Longrightarrow> priv_srcBuffer f = Some b \<Longrightarrow> data u g f = (Inr (Inr b), f)"
  "\<not> modified f \<Longrightarrow> priv_srcBuffer f = None \<Longrightarrow> priv_srcContent f = Some s \<Longrightarrow>
     data u g f = (Inr (Inr (stringToBuffer u s (get_encoding g f))),
                   f\<lparr>priv_srcBuffer := Some (stringToBuffer u s (get_encoding g f))\<rparr>)"
  "\<not> modified f \<Longrightarrow> priv_srcBuffer f = None \<Longrightarrow> priv_srcContent f = None \<Longrightarrow>
     generated f \<or> clean_mode g \<Longrightarrow> data u g f = (Inr (Inr []), f\<lparr>priv_srcBuffer := Some []\<rparr>)"
  "\<not> modified f \<Longrightarrow> priv_srcBuffer f = None \<Longrightarrow> priv_srcContent f = None \<Longrightarrow>
     \<not> generated f \<Longrightarrow> \<not> clean_mode g \<Longrightarrow> readFileSync u (srcPath f) = Inr b \<Longrightarrow>
     data u g f = (Inr (Inr b), f\<lparr>priv_srcBuffer := Some b\<rparr>)"
  "\<not> modified f \<Longrightarrow> priv_srcBuffer f = None \<Longrightarrow> priv_srcContent f = None \<Longrightarrow>
     \<not> generated f \<Longrightarrow> \<not> clean_mode g \<Longrightarrow> readFileSync u (srcPath f) = Inl e \<Longrightarrow>
     data u g f = (Inl e, f)"
  by (auto simp add: data_def buffer_def srcBuffer_def modified_def generated_def)

lemma clone_returns:
  "fst (data u g f) = Inr v \<Longrightarrow>
     clone u g f = (Inr (new_File u (Some (srcPath f)) (Some (path f)) (Some v)), snd (data u g f))"
  by (simp add: clone_def)

lemma clone_throws:
  "fst (data u g f) = Inl e \<Longrightarrow> clone u g f = (Inl e, snd (data u g f))"
  by (simp add: clone_def)

lemma new_File_data:
  "priv_destContent (new_File u sp p (Some (Inl s))) = Some s"
  "priv_destBuffer (new_File u sp p (Some (Inl s))) = None"
  "priv_destBuffer (new_File u sp p (Some (Inr b))) = Some b"
  "priv_destContent (new_File u sp p (Some (Inr b))) = None"
  "priv_srcBuffer (new_File u sp p d) = None"
  "priv_srcContent (new_File u sp p d) = None"
  by (simp_all add: new_File_def Let_def set_data_def set_content_def set_buffer_def setModified_def
        blank_File_def split: option.splits sum.splits)

text \<open>
  C10 (as stated) fails: \<open>clone\<close> does not return for every file. For the unmodified
  file \<open>a.txt\<close> that has not been read, on a disk where it cannot be read, the read of
  \<open>this.data\<close> goes to \<open>readFileSync\<close>, which throws, and so does \<open>clone\<close>; the file is
  left as it was.
\<close>

theorem C10_clone_unreadable_throws:
  "\<not> modified sample_File \<and> \<not> generated sample_File
   \<and> priv_srcBuffer sample_File = None \<and> priv_srcContent sample_File = None
   \<and> readFileSync unreadable_Utility (srcPath sample_File) = Inl ENOENT
   \<and> data unreadable_Utility default_Globals sample_File = (Inl ENOENT, sample_File)
   \<and> clone unreadable_Utility default_Globals sample_File = (Inl ENOENT, sample_File)"
  by (simp add: clone_def data_def buffer_def srcBuffer_def modified_def generated_def
        sample_File_def blank_File_def unreadable_Utility_def sample_Utility_def clean_mode_def
        default_Globals_def WorkingMode_build_def WorkingMode_clean_def)

text \<open>
  C10 (amended): \<open>clone\<close> returns exactly when the read of \<open>this.data\<close> returns, and
  throws what it throws otherwise. When it returns, the copy is modified, whatever
  the original was: it holds the value of \<open>data\<close> in the dest slot of its kind, the
  other dest slot and both source slots being empty. \<open>data\<close> is the dest text when
  there is one, else the dest bytes when there are some, else the source buffer: the
  cached \<open>_srcBuffer\<close>; else the cached \<open>_srcContent\<close> converted to bytes; else, for a
  generated file or in clean mode, the empty buffer; else the bytes \<open>readFileSync\<close>
  returns for \<open>srcPath\<close>. In the last three cases the buffer is stored in \<open>_srcBuffer\<close> of
  the original, so cloning an unmodified file materializes its source content. When
  that read throws, \<open>clone\<close> throws and leaves the file as it was.
\<close>

theorem C10_clone_copies_data:
  "(fst (data u g f) = Inr v \<longrightarrow>
      clone u g f = (Inr (new_File u (Some (srcPath f)) (Some (path f)) (Some v)), snd (data u g f))
      \<and> modified (new_File u (Some (srcPath f)) (Some (path f)) (Some v))
      \<and> (case v of
            Inl s \<Rightarrow> priv_destContent (new_File u (Some (srcPath f)) (Some (path f)) (Some v)) = Some s
                     \<and> priv_destBuffer (new_File u (Some (srcPath f)) (Some (path f)) (Some v)) = None
          | Inr b \<Rightarrow> priv_destBuffer (new_File u (Some (srcPath f)) (Some (path f)) (Some v)) = Some b
                     \<and> priv_destContent (new_File u (Some (srcPath f)) (Some (path f)) (Some v)) = None)
      \<and> priv_srcBuffer (new_File u (Some (srcPath f)) (Some (path f)) (Some v)) = None
      \<and> priv_srcContent (new_File u (Some (srcPath f)) (Some (path f)) (Some v)) = None)
   \<and> (fst (data u g f) = Inl e \<longrightarrow> clone u g f = (Inl e, snd (data u g f)))
   \<and> (priv_destContent f = Some s \<longrightarrow> data u g f = (Inr (Inl s), f))
   \<and> (priv_destContent f = None \<and> priv_destBuffer f = Some b \<longrightarrow> data u g f = (Inr (Inr b), f))
   \<and> (\<not> modified f \<and> priv_srcBuffer f = Some b \<longrightarrow> data u g f = (Inr (Inr b), f))
   \<and> (\<not> modified f \<and> priv_srcBuffer f = None \<and> priv_srcContent f = Some s \<longrightarrow>
        data u g f = (Inr (Inr (stringToBuffer u s (get_encoding g f))),
                      f\<lparr>priv_srcBuffer := Some (stringToBuffer u s (get_encoding g f))\<rparr>))
   \<and> (\<not> modified f \<and> priv_srcBuffer f = None \<and> priv_srcContent f = None
        \<and> (generated f \<or> clean_mode g) \<longrightarrow>
        data u g f = (Inr (Inr []), f\<lparr>priv_srcBuffer := Some []\<rparr>))
   \<and> (\<not> modified f \<and> priv_srcBuffer f = None \<and> priv_srcContent f = None
        \<and> \<not> generated f \<and> \<not> clean_mode g \<and> readFileSync u (srcPath f) = Inr b \<longrightarrow>
        data u g f = (Inr (Inr b), f\<lparr>priv_srcBuffer := Some b\<rparr>))
   \<and> (\<not> modified f \<and> priv_srcBuffer f = None \<and> priv_srcContent f = None
        \<and> \<not> generated f \<and> \<not> clean_mode g \<and> readFileSync u (srcPath f) = Inl e \<longrightarrow>
        clone u g f = (Inl e, f))"
proof -
  let ?c = "new_File u (Some (srcPath f)) (Some (path f)) (Some v)"
  have kind: "(case v of
            Inl s \<Rightarrow> priv_destContent ?c = Some s \<and> priv_destBuffer ?c = None
          | Inr b \<Rightarrow> priv_destBuffer ?c = Some b \<and> priv_destContent ?c = None)"
    by (cases v) (simp_all add: new_File_data)
  have m: "modified ?c"
    by (simp add: new_File_def Let_def set_data_modified)
  have src: "priv_srcBuffer ?c = None \<and> priv_srcContent ?c = None"
    by (simp add: new_File_data)
  have thr: "\<not> modified f \<and> priv_srcBuffer f = None \<and> priv_srcContent f = None
        \<and> \<not> generated f \<and> \<not> clean_mode g \<and> readFileSync u (srcPath f) = Inl e \<longrightarrow>
        clone u g f = (Inl e, f)"
    using data_cases(7) [of f g u e] clone_throws [of u g f e] by auto
  from kind m src thr clone_returns [of u g f v] clone_throws [of u g f e]
    data_cases(1) [of f s u g] data_cases(2) [of f b u g] data_cases(3) [of f b u g]
    data_cases(4) [of f s u g] data_cases(5) [of f g u] data_cases(6) [of f g u b]
  show ?thesis by blast
qed


theorem C10_clone_copies_data_witness:
  "\<not> modified sample_File \<and> \<not> generated sample_File \<and> \<not> clean_mode default_Globals
   \<and> priv_srcBuffer sample_File = None \<and> priv_srcContent sample_File = None
   \<and> readFileSync hi_Utility (srcPath sample_File) = Inr [104, 105]
   \<and> data hi_Utility default_Globals sample_File
       = (Inr (Inr [104, 105]), sample_File\<lparr>priv_srcBuffer := Some [104, 105]\<rparr>)
   \<and> clone hi_Utility default_Globals sample_File
       = (Inr (new_File hi_Utility (Some ''a.txt'') (Some ''a.txt'') (Some (Inr [104, 105]))),
          sample_File\<lparr>priv_srcBuffer := Some [104, 105]\<rparr>)
   \<and> modified (new_File hi_Utility (Some ''a.txt'') (Some ''a.txt'') (Some (Inr [104, 105])))
   \<and> priv_destBuffer (new_File hi_Utility (Some ''a.txt'') (Some ''a.txt'') (Some (Inr [104, 105])))
       = Some [104, 105]
   \<and> generated generated_File \<and> \<not> modified generated_File
   \<and> data hi_Utility default_Globals generated_File
       = (Inr (Inr []), generated_File\<lparr>priv_srcBuffer := Some []\<rparr>)
   \<and> priv_destContent edited_File = Some ''hi''
   \<and> data hi_Utility default_Globals edited_File = (Inr (Inl ''hi''), edited_File)
   \<and> readFileSync unreadable_Utility (srcPath sample_File) = Inl ENOENT
   \<and> clone unreadable_Utility default_Globals sample_File = (Inl ENOENT, sample_File)"
proof -
  have n: "\<not> modified sample_File \<and> priv_srcBuffer sample_File = None \<and> priv_srcContent sample_File = None"
    by (simp add: sample_File_def blank_File_def modified_def)
  have ng: "\<not> generated sample_File" and sp: "srcPath sample_File = ''a.txt''"
    and pp: "path sample_File = ''a.txt''"
    by (simp_all add: sample_File_def generated_def)
  have nc: "\<not> clean_mode default_Globals"
    by (simp add: clean_mode_def default_Globals_def WorkingMode_build_def WorkingMode_clean_def)
  have r: "readFileSync hi_Utility (srcPath sample_File) = Inr [104, 105]"
    by (simp add: hi_Utility_def sample_Utility_def)
  have x: "readFileSync unreadable_Utility (srcPath sample_File) = Inl ENOENT"
    by (simp add: unreadable_Utility_def sample_Utility_def)
  have gen: "generated generated_File \<and> \<not> modified generated_File
      \<and> priv_srcBuffer generated_File = None \<and> priv_srcContent generated_File = None"
    by (simp add: generated_File_def blank_File_def modified_def generated_def)
  have ed: "priv_destContent edited_File = Some ''hi''"
    by (simp add: edited_File_def set_content_def setModified_def)
  note w = C10_clone_copies_data [where u = hi_Utility and g = default_Globals and f = sample_File
      and v = "Inr [104, 105]" and b = "[104, 105]"]
  note wg = C10_clone_copies_data [where u = hi_Utility and g = default_Globals and f = generated_File]
  note we = C10_clone_copies_data [where u = hi_Utility and g = default_Globals and f = edited_File
      and s = "''hi''"]
  note wx = C10_clone_copies_data [where u = unreadable_Utility and g = default_Globals
      and f = sample_File and e = ENOENT]
  from n ng nc r w
  have d: "data hi_Utility default_Globals sample_File
       = (Inr (Inr [104, 105]), sample_File\<lparr>priv_srcBuffer := Some [104, 105]\<rparr>)"
    by blast
  from d w [THEN conjunct1] sp pp
  have c: "clone hi_Utility default_Globals sample_File
       = (Inr (new_File hi_Utility (Some ''a.txt'') (Some ''a.txt'') (Some (Inr [104, 105]))),
          sample_File\<lparr>priv_srcBuffer := Some [104, 105]\<rparr>)
     \<and> modified (new_File hi_Utility (Some ''a.txt'') (Some ''a.txt'') (Some (Inr [104, 105])))
     \<and> priv_destBuffer (new_File hi_Utility (Some ''a.txt'') (Some ''a.txt'') (Some (Inr [104, 105])))
       = Some [104, 105]"
    by simp
  from gen wg
  have dg: "data hi_Utility default_Globals generated_File
       = (Inr (Inr []), generated_File\<lparr>priv_srcBuffer := Some []\<rparr>)"
    by blast
  from ed we
  have de: "data hi_Utility default_Globals edited_File = (Inr (Inl ''hi''), edited_File)"
    by blast
  from n ng nc x wx
  have cx: "clone unreadable_Utility default_Globals sample_File = (Inl ENOENT, sample_File)"
    by blast
  from n ng nc r d c gen dg ed de x cx show ?thesis by simp
qed

subsection \<open>Per-file overrides\<close>

lemma sourceMapUrl_setter_general:
  "get_sourceMapInline g (set_sourceMapUrl v f) = v"
  "own f ''sourceMapUrl'' = None \<Longrightarrow> sourceMapUrl g = None \<Longrightarrow>
     get_sourceMapUrl g (set_sourceMapUrl v f) = JUndefined"
  by (simp_all add: get_sourceMapUrl_def set_sourceMapUrl_def get_sourceMapInline_def
        setProperty_def read_property_def)

lemma sibling_setters_round_trip:
  "get_sourceMapInline g (set_sourceMapInline v f) = v"
  "get_sourceMapEmit g (set_sourceMapEmit v f) = v"
  "get_sourceMapPath g (set_sourceMapPath v f) = v"
  "get_sourceMapRoot g (set_sourceMapRoot v f) = v"
  "get_sourceMapIncludeFile g (set_sourceMapIncludeFile v f) = v"
  "get_sourceMapIncludeNames g (set_sourceMapIncludeNames v f) = v"
  "get_sourceMapIncludeSourcesContent g (set_sourceMapIncludeSourcesContent v f) = v"
  "get_sourceMap g (set_sourceMap v f) = v"
  by (simp_all add: get_sourceMapInline_def set_sourceMapInline_def get_sourceMapEmit_def
        set_sourceMapEmit_def get_sourceMapPath_def set_sourceMapPath_def get_sourceMapRoot_def
        set_sourceMapRoot_def get_sourceMapIncludeFile_def set_sourceMapIncludeFile_def
        get_sourceMapIncludeNames_def set_sourceMapIncludeNames_def
        get_sourceMapIncludeSourcesContent_def set_sourceMapIncludeSourcesContent_def
        get_sourceMap_def set_sourceMap_def setProperty_def read_property_def)

text \<open>
  C7: the code at the failing input. After \<open>f.sourceMapUrl = "x.map"\<close> on a fresh file
  with the default globals, \<open>f.sourceMapUrl\<close> still reads \<open>undefined\<close> and
  \<open>f.sourceMapInline\<close>, which read \<open>false\<close> before, reads \<open>"x.map"\<close>: the setter of
  \<open>sourceMapUrl\<close> installs its value under the key of \<open>sourceMapInline\<close>. The setters of
  the other flags install theirs under their own key (\<open>sibling_setters_round_trip\<close>).
\<close>

theorem C7_sourceMapUrl_assignment:
  "get_sourceMapUrl default_Globals (set_sourceMapUrl (JStr ''x.map'') sample_File) = JUndefined
   \<and> get_sourceMapInline default_Globals sample_File = JBool False
   \<and> get_sourceMapInline default_Globals (set_sourceMapUrl (JStr ''x.map'') sample_File) = JStr ''x.map''"
  by (simp add: get_sourceMapUrl_def set_sourceMapUrl_def get_sourceMapInline_def
        setProperty_def read_property_def default_Globals_def sample_File_def blank_File_def)



subsection \<open>Diagnostics\<close>



lemma error_shape:
  "snd (error u g d f) = [] \<or> (\<exists>e. snd (error u g d f) = [Log e LogLevel_error])
   \<or> (\<exists>x. snd (error u g d f) = [Throw x])"
  by (simp add: error_def log_def Let_def split: sum.splits)

lemma thrown_error:
  "thrown (snd (error u g d f))
     = (case fst (new_FileLogEntry u g f d) of Inl x \<Rightarrow> Some x | Inr e \<Rightarrow> None)"
  by (simp add: error_def log_def Let_def split: sum.splits)


text \<open>
  The constructor of the diagnostic throws when the diagnostic has no content of its
  own, no content slot of the file is populated and the source file cannot be read.
\<close>

lemma new_FileLogEntry_rethrows:
  assumes "priv_srcBuffer f = None" and "priv_srcContent f = None" and "priv_destBuffer f = None"
    and "priv_destContent f = None" and "\<not> clean_mode g" and "srcPath f \<noteq> []"
    and "le_content (new_LogEntry u d) = None" and "readFileSync u (srcPath f) = Inl x"
  shows "new_FileLogEntry u g f d = (Inl x, f)"
  using assms by (simp add: new_FileLogEntry_def Let_def content_def srcContent_def)


subsection \<open>Load\<close>

lemma load_cases:
  "(ReadFile (srcPath f) \<in> set (snd (load u g f)) \<longleftrightarrow>
      priv_srcBuffer f = None \<and> priv_srcContent f = None \<and> priv_destBuffer f = None
      \<and> priv_destContent f = None \<and> \<not> clean_mode g \<and> srcPath f \<noteq> [])"
  "\<not> (priv_srcBuffer f = None \<and> priv_srcContent f = None \<and> priv_destBuffer f = None
      \<and> priv_destContent f = None \<and> \<not> clean_mode g \<and> srcPath f \<noteq> []) \<Longrightarrow>
     load u g f = (f, [Callback None])"
  "generated f \<Longrightarrow> load u g f = (f, [Callback None])"
  "exists u f = existsFileSync u (srcPath f)"
  "load_readFile u g (Inr b) f = (f\<lparr>priv_srcBuffer := Some b\<rparr>, [EndAsync, Callback None])"
  by (auto simp add: load_def load_readFile_def generated_def exists_def)

lemma load_readFile_reported:
  assumes "thrown (snd (error u g (LogError e) f)) = None"
  shows "load_readFile u g (Inl e) f
           = (fst (error u g (LogError e) f),
              snd (error u g (LogError e) f) @ [EndAsync, Callback (Some e)])"
  using assms by (simp add: load_readFile_def followed_by_def)

text \<open>
  When the asynchronous read of a file fails and the synchronous read of it fails
  too, the callback of \<open>readFile\<close> throws: nothing is logged, and \<open>endAsync\<close> and the
  caller's callback are not reached. This holds for every file \<open>load\<close> reads (no
  content slot is populated then), when the base constructor of the diagnostic gives
  it no content.
\<close>

lemma load_readFile_rethrows:
  assumes "ReadFile (srcPath f) \<in> set (snd (load u g f))"
    and "le_content (new_LogEntry u (LogError e)) = None" and "readFileSync u (srcPath f) = Inl x"
  shows "load_readFile u g (Inl e) f = (f, [Throw x])"
proof -
  from assms(1) have "priv_srcBuffer f = None \<and> priv_srcContent f = None \<and> priv_destBuffer f = None
      \<and> priv_destContent f = None \<and> \<not> clean_mode g \<and> srcPath f \<noteq> []"
    by (simp add: load_cases(1))
  with assms(2,3) have "new_FileLogEntry u g f (LogError e) = (Inl x, f)"
    by (simp add: new_FileLogEntry_rethrows)
  then show ?thesis
    by (simp add: load_readFile_def error_def log_def followed_by_def)
qed

text \<open>
  C9: the code at the failing input. The file \<open>a.txt\<close> has not been read and cannot be
  read. \<open>load\<close> starts the asynchronous read. When that fails with \<open>ENOENT\<close>, the callback
  of \<open>readFile\<close> calls \<open>this.error\<close>, whose \<open>FileLogEntry\<close> asks for \<open>file.content\<close>; no slot
  is populated, so the getter reads the file with \<open>readFileSync\<close>, which throws. The
  throw leaves the callback of \<open>readFile\<close>: no diagnostic is logged, no error is counted
  on the file, \<open>endAsync\<close> is not called and the caller's callback is not invoked.
\<close>

theorem C9_failed_read_throws:
  "load unreadable_Utility default_Globals sample_File
     = (sample_File, [BeginAsync ''Read: {file}'', ReadFile ''a.txt''])
   \<and> load_readFile unreadable_Utility default_Globals (Inl ENOENT) sample_File
       = (sample_File, [Throw ENOENT])
   \<and> errorCount sample_File = None"
  by (simp add: load_def load_readFile_def error_def log_def new_FileLogEntry_def content_def
        srcContent_def followed_by_def Let_def sample_File_def blank_File_def unreadable_Utility_def
        sample_Utility_def sample_new_LogEntry_def blank_LogEntry_def clean_mode_def
        default_Globals_def WorkingMode_build_def WorkingMode_clean_def)

theorem C9_failed_read_throws_witness:
  "ReadFile ''a.txt'' \<in> set (snd (load unreadable_Utility default_Globals sample_File))
   \<and> thrown (snd (load_readFile unreadable_Utility default_Globals (Inl ENOENT) sample_File))
       = Some ENOENT
   \<and> EndAsync \<notin> set (snd (load_readFile unreadable_Utility default_Globals (Inl ENOENT) sample_File))
   \<and> Callback (Some ENOENT)
       \<notin> set (snd (load_readFile unreadable_Utility default_Globals (Inl ENOENT) sample_File))
   \<and> errorCount (fst (load_readFile unreadable_Utility default_Globals (Inl ENOENT) sample_File))
       = None"
  using C9_failed_read_throws by simp

subsection \<open>Save: the overwrite guard\<close>

lemma callbacks_error [simp]:
  "callbacks (map Eff (snd (error u g d f)) @ es) = callbacks es"
  using error_shape [of u g d f] by auto

lemma fs_effects_error [simp]:
  "fs_effects (map Eff (snd (error u g d f)) @ es) = fs_effects es"
  using error_shape [of u g d f] by auto

lemma fs_effects_Eff [simp]: "fs_effects (map Eff es) = []"
  by (induction es) simp_all






subsection \<open>Save: the source-map comment\<close>

text \<open>
  C2: the code at the failing input. \<open>mapped_File\<close> is saved to \<open>out\<close> in build mode with
  the default globals (source-map comment on, not inline, no \<open>sourceMapUrl\<close> callback).
  Whatever \<open>emitSourceMapUrl\<close> is, the URL it is given is \<open>undefined\<close>: the relative URL
  from the save path to the map, computed at file.ts:642, is bound to a constant that
  is never read, and file.ts:656 passes \<open>this.sourceMapUrl\<close> alone.
\<close>

theorem C2_computed_url_unused:
  "fs_effects (snd (save (sample_Utility\<lparr>emitSourceMapUrl := E\<rparr>) default_Globals (Some ''out'') mapped_File))
     = [FsWriteFile (JStr ''out/a.js'')
          (stringToBuffer sample_Utility (E ''VAR X = 1;'' JUndefined True) (JStr ''utf-8'')),
        FsWriteFile (JStr ''out/a.js.map'') (stringToBuffer sample_Utility ''{}'' (JStr ''utf-8''))]"
  by (simp add: save_def save_path_def save_build_def written_content_def emitted_url_def
        save_modified_def save_sourceMapEmit_def save_sourceMapPath_def sm_truthy_def
        finalSourceMapString_def finalSourceMap_def final_sources_def
        get_sourceMapEmit_def get_sourceMapInline_def get_sourceMapUrl_def get_sourceMapPath_def
        get_sourceMapRoot_def get_sourceMapIncludeSourcesContent_def get_sourceMapIncludeFile_def
        get_sourceMapIncludeNames_def get_overwrite_def get_encoding_def read_property_def
        clean_mode_def preview_mode_def WorkingMode_build_def WorkingMode_clean_def
        WorkingMode_preview_def content_def js_suffix_def modified_def
        sample_Utility_def sample_resolvePath_def default_Globals_def mapped_File_def
        blank_File_def blank_SourceMapObject_def set_content_def setModified_def Let_def)

section \<open>Properties of the plugin loader\<close>

text \<open>
  C8: the code at the failing input. The first \<open>plugin("foo")\<close> resolves the name,
  loads the module and stores it in the table under the resolved path, since \<open>name\<close>
  was reassigned; the table has no entry for \<open>"foo"\<close>. The second \<open>plugin("foo")\<close>
  misses the table and performs the resolution and the \<open>require\<close> again.
\<close>

theorem C8_second_call_resolves_again:
  "plugin sample_Utility sample_Node ''foo'' (\<lambda>_. None)
     = (Inr (JStr ''foo plugin''), (\<lambda>_. None)(''node_modules/foo/index.js'' := Some (JStr ''foo plugin'')),
        [Begin ''Load plugin: {plugin}'', Resolve ''node_modules/foo'',
         Require ''node_modules/foo/index.js'', End])
   \<and> fst (snd (plugin sample_Utility sample_Node ''foo'' (\<lambda>_. None))) ''foo'' = None
   \<and> snd (snd (plugin sample_Utility sample_Node ''foo''
          (fst (snd (plugin sample_Utility sample_Node ''foo'' (\<lambda>_. None))))))
       = [Begin ''Load plugin: {plugin}'', Resolve ''node_modules/foo'',
          Require ''node_modules/foo/index.js'', End]"
proof -
  have rel: "\<not> isRelative ''foo''"
    by (simp add: isRelative_def word_char_def)
  have first: "plugin sample_Utility sample_Node ''foo'' (\<lambda>_. None)
     = (Inr (JStr ''foo plugin''), (\<lambda>_. None)(''node_modules/foo/index.js'' := Some (JStr ''foo plugin'')),
        [Begin ''Load plugin: {plugin}'', Resolve ''node_modules/foo'',
         Require ''node_modules/foo/index.js'', End])"
    using rel by (simp add: plugin_def plugin_require_def sample_Node_def sample_Utility_def
        sample_resolvePath_def)
  have second: "snd (snd (plugin sample_Utility sample_Node ''foo''
      ((\<lambda>_. None)(''node_modules/foo/index.js'' := Some (JStr ''foo plugin'')))))
       = [Begin ''Load plugin: {plugin}'', Resolve ''node_modules/foo'',
          Require ''node_modules/foo/index.js'', End]"
    using rel by (simp add: plugin_def plugin_require_def sample_Node_def sample_Utility_def
        sample_resolvePath_def)
  from first second show ?thesis by simp
qed

lemma plugin_hit:
  "plugins name = Some v \<Longrightarrow> truthy v \<Longrightarrow> plugin u n name plugins = (Inr v, plugins, [])"
  by (simp add: plugin_def)

lemma plugin_stores_under_resolved_name:
  "plugin u n name plugins = (Inr v, plugins', fx) \<Longrightarrow> fx \<noteq> [] \<Longrightarrow>
     \<exists>resolved. plugins' = plugins(resolved := Some v)
       \<and> (require_resolve n (resolvePath u [JStr (if isRelative name then ''.'' else ''node_modules''),
              JStr name]) = Some resolved
           \<or> require_resolve n name = Some resolved)"
  by (auto simp add: plugin_def plugin_require_def Let_def split: if_splits option.splits sum.splits)

section \<open>Properties of the file list\<close>

lemma files_apply_op: "files (apply_op fl x) = files fl @ added [x]"
  by (cases x) (simp_all add: add_def end_list_def on_def)

lemma added_append: "added (xs @ ys) = added xs @ added ys"
  by (induction xs rule: added.induct) simp_all

lemma files_history: "files (foldl apply_op fl ops) = files fl @ added ops"
proof (induction ops arbitrary: fl)
  case Nil
  show ?case by simp
next
  case (Cons x ops)
  have "added (x # ops) = added [x] @ added ops"
    using added_append [of "[x]" ops] by simp
  with Cons show ?case by (simp add: files_apply_op)
qed

lemma ended_apply_op: "ended (apply_op fl x) = (ended fl \<or> x = EndList)"
  by (cases x) (simp_all add: add_def end_list_def on_def)

lemma ended_history: "ended (foldl apply_op fl ops) = (ended fl \<or> EndList \<in> set ops)"
  by (induction ops arbitrary: fl) (auto simp add: ended_apply_op)

text \<open>
  C6: on a list with any history, \<open>on("data", l)\<close> invokes \<open>l\<close> before it returns, once
  for each file added so far and in the order they were added; \<open>on("end", l)\<close>
  invokes \<open>l\<close> before it returns, once and with the files of the list, when \<open>end()\<close>
  was called before, and not at all otherwise.
\<close>

theorem C6_late_listeners:
  "snd (on ''data'' l (foldl apply_op new_FileList ops)) = map (\<lambda>file. Call l (DataArg file)) (added ops)
   \<and> (EndList \<in> set ops \<longrightarrow>
        snd (on ''end'' l (foldl apply_op new_FileList ops)) = [Call l (EndArg (added ops))])
   \<and> (EndList \<notin> set ops \<longrightarrow> snd (on ''end'' l (foldl apply_op new_FileList ops)) = [])"
  by (simp add: on_def files_history ended_history new_FileList_def)

theorem C6_late_listeners_witness:
  "EndList \<in> set [Add 7, On ''data'' (0::nat), Add 3, EndList]
   \<and> snd (on ''data'' (1::nat) (foldl apply_op new_FileList [Add 7, On ''data'' 0, Add 3, EndList]))
       = [Call 1 (DataArg 7), Call 1 (DataArg 3)]
   \<and> snd (on ''end'' (1::nat) (foldl apply_op new_FileList [Add 7, On ''data'' 0, Add 3, EndList]))
       = [Call 1 (EndArg [7, 3])]
   \<and> EndList \<notin> set [Add 7, Add (3::nat), On ''end'' (0::nat)]
   \<and> snd (on ''end'' (1::nat) (foldl apply_op new_FileList [Add 7, Add 3, On ''end'' 0])) = []"
  using C6_late_listeners [of "1::nat" "[Add 7, On ''data'' 0, Add 3, EndList]"]
    C6_late_listeners [of "1::nat" "[Add 7, Add 3, On ''end'' 0]"]
  by simp

section \<open>Properties of pipe\<close>

subsection \<open>Traces\<close>

lemma skipped_append [simp]: "skipped (xs @ ys) = skipped xs @ skipped ys"
  by (induction xs rule: skipped.induct) simp_all

lemma finished_append [simp]: "finished (xs @ ys) = finished xs @ finished ys"
  by (induction xs rule: finished.induct) simp_all

lemma caught_append [simp]: "caught (xs @ ys) = caught xs @ caught ys"
  by (induction xs rule: caught.induct) simp_all

lemma handled_append [simp]: "handled (xs @ ys) = handled xs @ handled ys"
  by (induction xs rule: handled.induct) simp_all

lemma delivered_silent [simp]:
  "skipped (map Delivered cs) = []"
  "finished (map Delivered cs) = []"
  "caught (map Delivered cs) = []"
  "handled (map Delivered cs) = []"
  by (induction cs) simp_all

lemma track_delivered [simp]: "foldl track st (map Delivered cs) = st"
proof (induction cs arbitrary: st)
  case Nil
  show ?case by simp
next
  case (Cons c cs)
  then show ?case by (cases st) simp_all
qed

subsection \<open>The result list\<close>

lemma result_add_fields [simp]:
  "files (result (result_add file s)) = files (result s) @ [file]"
  "ended (result (result_add file s)) = ended (result s)"
  "listeners (result (result_add file s)) = listeners (result s)"
  "trace (result_add file s) = trace s @ map Delivered (snd (add file (result s)))"
  "pending (result_add file s) = pending s"
  "reading (result_add file s) = reading s"
  "running (result_add file s) = running s"
  "whole (result_add file s) = whole s"
  "heap (result_add file s) = heap s"
  "srcList (result_add file s) = srcList s"
  "called (result_add file s) = called s"
  "armed (result_add file s) = armed s"
  "raised (result_add file s) = raised s"
  by (simp_all add: result_add_def add_def)

lemma result_end_fields [simp]:
  "files (result (result_end s)) = files (result s)"
  "ended (result (result_end s)) = True"
  "listeners (result (result_end s)) = listeners (result s)"
  "trace (result_end s) = trace s @ map Delivered (snd (end_list (result s)))"
  "pending (result_end s) = pending s"
  "reading (result_end s) = reading s"
  "running (result_end s) = running s"
  "whole (result_end s) = whole s"
  "heap (result_end s) = heap s"
  "srcList (result_end s) = srcList s"
  "called (result_end s) = called s"
  "armed (result_end s) = armed s"
  "raised (result_end s) = raised s"
  by (simp_all add: result_end_def end_list_def)

lemma file_error_fields [simp]:
  "result (file_error u g p file e s) = result s"
  "trace (file_error u g p file e s) = trace s @ [Caught file]"
  "pending (file_error u g p file e s) = pending s"
  "reading (file_error u g p file e s) = reading s"
  "running (file_error u g p file e s) = running s"
  "whole (file_error u g p file e s) = whole s"
  "srcList (file_error u g p file e s) = srcList s"
  "called (file_error u g p file e s) = called s"
  "armed (file_error u g p file e s) = armed s"
  by (simp_all add: file_error_def)

lemma closed_fields [simp]:
  "result (closed p fs i s) = result s"
  "trace (closed p fs i s) = trace s"
  "pending (closed p fs i s) = pending s"
  "reading (closed p fs i s) = reading s"
  "running (closed p fs i s) = running s"
  "whole (closed p fs i s) = whole s"
  "srcList (closed p fs i s) = srcList s"
  "heap (closed p fs i s) = heap s"
  "armed (closed p fs i s) = armed s"
  "raised (closed p fs i s) = raised s"
  by (simp_all add: closed_def)

subsection \<open>Reads that succeed\<close>

text \<open>When no synchronous read fails, no getter throws, and neither does a diagnostic.\<close>

lemma thrown_append:
  "thrown (xs @ ys) = (case thrown xs of None \<Rightarrow> thrown ys | Some e \<Rightarrow> Some e)"
  by (induction xs rule: thrown.induct) simp_all

lemma readable_srcContent: "readable u \<Longrightarrow> \<not> isl (fst (srcContent u g f))"
proof -
  assume "readable u"
  then have "\<not> isl (readFileSync u (srcPath f))"
    by (simp add: readable_def)
  then show ?thesis
    by (cases "readFileSync u (srcPath f)") (simp_all add: srcContent_def split: option.splits)
qed

lemma readable_content: "readable u \<Longrightarrow> \<not> isl (fst (content u g f))"
  by (auto simp add: content_def readable_srcContent split: option.splits)

lemma sum_case_not_isl: "\<not> isl x \<Longrightarrow> (case x of Inl a \<Rightarrow> f a | Inr b \<Rightarrow> h b) = h (projr x)"
  by (cases x) simp_all

lemma readable_new_FileLogEntry: "readable u \<Longrightarrow> \<not> isl (fst (new_FileLogEntry u g f d))"
  unfolding new_FileLogEntry_def
  by (simp add: Let_def readable_content readable_srcContent sum_case_not_isl)

lemma readable_error [simp]: "readable u \<Longrightarrow> thrown (snd (error u g d f)) = None"
  using readable_new_FileLogEntry [of u g f d]
  by (cases "fst (new_FileLogEntry u g f d)") (simp_all add: thrown_error)

lemma readable_load_readFile [simp]: "readable u \<Longrightarrow> thrown (snd (load_readFile u g r f)) = None"
  by (cases r) (simp_all add: load_readFile_def followed_by_def thrown_append)

lemma readable_file_error [simp]: "readable u \<Longrightarrow> raised (file_error u g p file e s) = None"
  by (simp add: file_error_def)

subsection \<open>Per-file modes\<close>




lemma nothing_left [simp]:
  "int (length xs) + int (length ys) \<le> 0 \<longleftrightarrow> xs = [] \<and> ys = []"
  by (cases xs; cases ys) simp_all
















subsection \<open>The stage in the per-file modes\<close>






lemma raised_clear [simp]: "raised s = None \<Longrightarrow> s\<lparr>raised := None\<rparr> = s"
  by (cases s) simp











subsection \<open>Whole-list mode\<close>








subsection \<open>The stage in whole-list mode\<close>










subsection \<open>Outputs of a stage\<close>





text \<open>
  Two runs outside the contract. When the asynchronous read of a file fails and the
  file cannot be read synchronously either, \<open>load\<close> throws instead of calling back:
  the file stays counted in \<open>pending\<close> and the downstream list never ends. When a
  processor of arity 3 calls \<open>done\<close> twice for a file, the file is added twice.
\<close>

lemma failed_read_stalls_stage:
  "raised (run unreadable_Utility default_Globals idle_Processor
      (pipe unreadable_Utility default_Globals idle_Processor new_FileList (\<lambda>_. sample_File))
      [SrcAdd 0, ReadDone 0 (Inl ENOENT)]) = Some ENOENT
   \<and> \<not> ended (result (run unreadable_Utility default_Globals idle_Processor
      (pipe unreadable_Utility default_Globals idle_Processor new_FileList (\<lambda>_. sample_File))
      [SrcAdd 0, ReadDone 0 (Inl ENOENT), Then, SrcEnd]))
   \<and> pending (run unreadable_Utility default_Globals idle_Processor
      (pipe unreadable_Utility default_Globals idle_Processor new_FileList (\<lambda>_. sample_File))
      [SrcAdd 0, ReadDone 0 (Inl ENOENT), Then, SrcEnd]) = 1"
  by code_simp

lemma done_twice_adds_twice:
  "files (result (run sample_Utility default_Globals (idle_Processor\<lparr>arity := 3\<rparr>)
      (pipe sample_Utility default_Globals (idle_Processor\<lparr>arity := 3\<rparr>) new_FileList abc_heap)
      [SrcAdd 1, ProcDone 1, ProcDone 1, Then, SrcEnd])) = [1, 1]
   \<and> \<not> punctual sample_Utility default_Globals (idle_Processor\<lparr>arity := 3\<rparr>)
      [SrcAdd 1, ProcDone 1, ProcDone 1, Then, SrcEnd]
      (pipe sample_Utility default_Globals (idle_Processor\<lparr>arity := 3\<rparr>) new_FileList abc_heap)"
  by code_simp






end
